theory Spec2Isabelle
  imports Complex_Main
begin

section \<open>Values, errors and reflection metadata\<close>

text \<open>
  The mapping layer of sorm works on Go values through reflection. A field value obtained
  with \<^verbatim>\<open>FieldByIndex(index).Interface()\<close> is a \<open>val\<close>; the constructors are the
  dynamic types that \<^verbatim>\<open>isZero\<close> tells apart, with \<open>VBool\<close> and \<open>VInt64\<close> standing for
  the kinds that reach its \<^verbatim>\<open>default\<close> branch. A slice or map is \<open>None\<close> when it is
  nil. A \<open>float64\<close> is the real number it denotes (NaN and the infinities are not
  represented).
\<close>

datatype val =
    VNil
  | VInt int
  | VInt64 int
  | VFloat64 real
  | VString string
  | VBool bool
  | VStrings "string list option"
  | VInterfaces "val list option"
  | VMap "(string \<times> val) list option"

datatype kind =
  KInvalid | KBool | KInt | KInt64 | KFloat64 | KString | KSlice | KMap | KStruct | KPtr
  | KInterface

text \<open>
  Errors are values. \<open>Wrap p e\<close> is \<^verbatim>\<open>fmt.Errorf(p + ": %w", e)\<close>, \<open>KindError m k\<close> is a
  message ending in the offending kind, \<open>MissingFields t ns\<close> is
  \<^verbatim>\<open>couldn't find fields on t for these sql fields: ns\<close>.
\<close>

datatype error =
    Msg string
  | Wrap string error
  | ErrNoRows
  | KindError string kind
  | MissingFields string "string list"

text \<open>A struct instance, read and written through the index path of a field.\<close>

type_synonym rec = "nat list \<Rightarrow> val"

text \<open>
  The struct description of package reflectutil, as sorm uses it: a struct tag
  \<^verbatim>\<open>sql:"name,id,table:t"\<close> has the value \<^verbatim>\<open>name\<close> and the parameters \<^verbatim>\<open>id\<close> and
  \<^verbatim>\<open>table\<close> (with value \<^verbatim>\<open>t\<close>).
\<close>

record FieldTag =
  Value :: string
  Parameters :: "(string \<times> string) list"

record Field =
  Name :: string
  Index :: "nat list"
  Tags :: "(string \<times> FieldTag) list"

record StructDescription =
  StructName :: string
  Fields :: "Field list"

definition Tag :: "Field \<Rightarrow> string \<Rightarrow> FieldTag option" where
  "Tag f n = map_of (Tags f) n"

definition Parameter :: "FieldTag \<Rightarrow> string \<Rightarrow> string option" where
  "Parameter t n = map_of (Parameters t) n"

definition WithTagValue :: "string \<Rightarrow> string \<Rightarrow> Field list \<Rightarrow> Field list" where
  "WithTagValue n v l =
     filter (\<lambda>f. case Tag f n of None \<Rightarrow> False | Some t \<Rightarrow> Value t = v) l"

definition WithoutTagValue :: "string \<Rightarrow> string \<Rightarrow> Field list \<Rightarrow> Field list" where
  "WithoutTagValue n v l =
     filter (\<lambda>f. case Tag f n of None \<Rightarrow> True | Some t \<Rightarrow> Value t \<noteq> v) l"

definition FieldNamed :: "StructDescription \<Rightarrow> string \<Rightarrow> Field option" where
  "FieldNamed vdesc n = find (\<lambda>f. Name f = n) (Fields vdesc)"

text \<open>
  Process-wide settings and the naming library: \<open>parameterPrefix\<close> is the package
  variable of that name, \<open>CamelToSnake\<close> is \<^verbatim>\<open>snaker.CamelToSnake\<close>.
\<close>

record env =
  parameterPrefix :: string
  CamelToSnake :: "string \<Rightarrow> string"

subsection \<open>Placeholders and names\<close>

definition digit_char :: "nat \<Rightarrow> char" where
  "digit_char d = ''0123456789'' ! d"

fun string_of_nat :: "nat \<Rightarrow> string" where
  "string_of_nat n =
     (if n < 10 then [digit_char n] else string_of_nat (n div 10) @ [digit_char (n mod 10)])"

declare string_of_nat.simps [simp del]

definition makeParameter :: "env \<Rightarrow> nat \<Rightarrow> string" where
  "makeParameter e n =
     (let s = parameterPrefix e;
          s = (if s = '''' then ''$'' else s)
      in s @ string_of_nat n)"

fun getSQLTableName_loop :: "Field list \<Rightarrow> string option" where
  "getSQLTableName_loop [] = None"
| "getSQLTableName_loop (f # fs) =
     (case (case Tag f ''table'' of None \<Rightarrow> None
            | Some t \<Rightarrow> if Value t \<noteq> '''' then Some (Value t) else None) of
        Some s \<Rightarrow> Some s
      | None \<Rightarrow>
          (case (case Tag f ''sql'' of None \<Rightarrow> None
                 | Some t \<Rightarrow>
                     (case Parameter t ''table'' of None \<Rightarrow> None
                      | Some p \<Rightarrow> if p \<noteq> '''' then Some p else None)) of
             Some s \<Rightarrow> Some s
           | None \<Rightarrow> getSQLTableName_loop fs))"

definition getSQLTableName :: "env \<Rightarrow> StructDescription \<Rightarrow> string" where
  "getSQLTableName e vdesc =
     (case getSQLTableName_loop (Fields vdesc) of
        Some s \<Rightarrow> s
      | None \<Rightarrow> CamelToSnake e (StructName vdesc) @ ''s'')"

definition getSQLColumnName :: "env \<Rightarrow> Field \<Rightarrow> string" where
  "getSQLColumnName e f =
     (case Tag f ''sql'' of
        None \<Rightarrow> CamelToSnake e (Name f)
      | Some t \<Rightarrow> if Value t \<noteq> '''' then Value t else CamelToSnake e (Name f))"

definition has_id_parameter :: "Field \<Rightarrow> bool" where
  "has_id_parameter f =
     (case Tag f ''sql'' of None \<Rightarrow> False | Some t \<Rightarrow> Parameter t ''id'' \<noteq> None)"

definition getSQLIDFields :: "StructDescription \<Rightarrow> Field list" where
  "getSQLIDFields vdesc =
     (let r = filter has_id_parameter (WithoutTagValue ''sql'' ''-'' (Fields vdesc))
      in if length r = 0
         then (case FieldNamed vdesc ''ID'' of
                 None \<Rightarrow> r
               | Some f \<Rightarrow>
                   (case Tag f ''sql'' of
                      None \<Rightarrow> r @ [f]
                    | Some t \<Rightarrow> if Value t \<noteq> ''-'' then r @ [f] else r))
         else r)"

fun isZero :: "val \<Rightarrow> bool" where
  "isZero (VInterfaces v) = (case v of None \<Rightarrow> True | Some l \<Rightarrow> length l = 0)"
| "isZero (VStrings v) = (case v of None \<Rightarrow> True | Some l \<Rightarrow> length l = 0)"
| "isZero (VMap v) = (case v of None \<Rightarrow> True | Some l \<Rightarrow> length l = 0)"
| "isZero (VInt v) = (v = 0)"
| "isZero (VFloat64 v) = (v = 0)"
| "isZero (VString v) = (v = '''')"
| "isZero VNil = True"
| "isZero (VBool b) = (\<not> b)"
| "isZero (VInt64 v) = (v = 0)"

text \<open>
  \<^verbatim>\<open>reflect.DeepEqual\<close> on two field values: structural equality of the values (a map
  is kept as its entries in key order, so that equal maps are equal lists).
\<close>

definition DeepEqual :: "val \<Rightarrow> val \<Rightarrow> bool" where
  "DeepEqual a b = (a = b)"

section \<open>Types, the database and the trace of statements\<close>

text \<open>
  A custom decode target (\<^verbatim>\<open>sql.Scanner\<close>) receives the driver value and may write to
  the record it was created for. A struct type carries what reflection and the method set
  give for it: its description (which may fail), its zero value, the conversion that
  \<^verbatim>\<open>rows.Scan\<close> applies for the field at an index path, and the optional
  \<^verbatim>\<open>OverrideScan\<close> method, which fills chosen slots with custom targets.
\<close>

type_synonym scanner = "val \<Rightarrow> rec \<Rightarrow> error + rec"

record StructType =
  TypeName :: string
  description :: "error + StructDescription"
  zero :: rec
  convertAssign :: "nat list \<Rightarrow> val \<Rightarrow> error + val"
  OverrideScan :: "(string list \<Rightarrow> error + (nat \<Rightarrow> scanner option)) option"

datatype gotype = TBasic kind | TPtr gotype | TSlice gotype | TStruct StructType

fun Kind :: "gotype \<Rightarrow> kind" where
  "Kind (TBasic k) = k"
| "Kind (TPtr t) = KPtr"
| "Kind (TSlice t) = KSlice"
| "Kind (TStruct st) = KStruct"

text \<open>
  The description cache is a memo table: a lookup returns what the first computation for
  the type returned.
\<close>

definition getDescriptionFromType :: "StructType \<Rightarrow> error + StructDescription" where
  "getDescriptionFromType st = description st"

text \<open>
  Every statement handed to the connection is recorded in a trace, together with the
  lifecycle hooks that ran. The connection answers a statement from the trace so far, so a
  later answer may depend on every earlier statement.
\<close>

datatype event =
    EvExec string "val list"
  | EvQuery string "val list"
  | EvQueryRow string "val list"
  | EvHook string

record Rows =
  Columns :: "error + string list"
  data :: "val list list"
  Close :: "error option"

record Querier =
  ExecContext :: "event list \<Rightarrow> string \<Rightarrow> val list \<Rightarrow> error option"
  QueryContext :: "event list \<Rightarrow> string \<Rightarrow> val list \<Rightarrow> error + Rows"
  QueryRowContext :: "event list \<Rightarrow> string \<Rightarrow> val list \<Rightarrow> error + val"

text \<open>
  A lifecycle hook is a method of the input value: it may fail and may change the value.
  An input is the dynamic type of the \<^verbatim>\<open>interface{}\<close> argument, the struct it points to
  (when it does), and the hooks its method set has.
\<close>

type_synonym hook = "rec \<Rightarrow> error option \<times> rec"

record Input =
  InputType :: gotype
  InputValue :: rec
  BeforeSave :: "hook option"
  AfterSave :: "hook option"
  BeforeCreate :: "hook option"
  AfterCreate :: "hook option"
  BeforeReplace :: "hook option"
  AfterReplace :: "hook option"
  BeforeDelete :: "hook option"
  AfterDelete :: "hook option"

definition run_hook ::
  "string \<Rightarrow> hook option \<Rightarrow> rec \<Rightarrow> event list \<Rightarrow> error option \<times> rec \<times> event list" where
  "run_hook n h r tr =
     (case h of
        None \<Rightarrow> (None, r, tr)
      | Some g \<Rightarrow> (fst (g r), snd (g r), tr @ [EvHook n]))"

section \<open>The row decoder\<close>

text \<open>The three lookups that \<^verbatim>\<open>ScanRows\<close> tries for one column name.\<close>

definition ScanRows_column :: "env \<Rightarrow> StructDescription \<Rightarrow> string \<Rightarrow> Field option" where
  "ScanRows_column e vdesc name =
     (let l = WithTagValue ''sql'' name (Fields vdesc)
      in if length l = 1 then Some (l ! 0)
         else (case FieldNamed vdesc name of
                 Some f \<Rightarrow> Some f
               | None \<Rightarrow> find (\<lambda>f. CamelToSnake e (Name f) = name) (Fields vdesc)))"

text \<open>
  The loop over the column names: the Go name and the index path of the field found for
  each column (empty where none was found), and the names that matched no field.
\<close>

fun ScanRows_outer ::
  "env \<Rightarrow> StructDescription \<Rightarrow> string list \<Rightarrow> string list \<times> nat list list \<times> string list" where
  "ScanRows_outer e vdesc [] = ([], [], [])"
| "ScanRows_outer e vdesc (name # names) =
     (case ScanRows_outer e vdesc names of
        (goNames, indexes, missing) \<Rightarrow>
          (case ScanRows_column e vdesc name of
             Some f \<Rightarrow> (Name f # goNames, Index f # indexes, missing)
           | None \<Rightarrow> ('''' # goNames, [] # indexes, name # missing)))"

datatype dest = DField "nat list" | DScanner scanner

fun ScanRows_args :: "(nat \<Rightarrow> scanner option) option \<Rightarrow> nat \<Rightarrow> nat list list \<Rightarrow> dest list" where
  "ScanRows_args scanners i [] = []"
| "ScanRows_args scanners i (index # indexes) =
     (case (case scanners of None \<Rightarrow> None | Some sc \<Rightarrow> sc i) of
        Some s \<Rightarrow> DScanner s
      | None \<Rightarrow> DField index) # ScanRows_args scanners (Suc i) indexes"

text \<open>
  \<^verbatim>\<open>rows.Scan\<close>: one destination per column, filled from left to right; the first
  conversion that fails ends the scan.
\<close>

fun Scan :: "StructType \<Rightarrow> dest list \<Rightarrow> val list \<Rightarrow> rec \<Rightarrow> error + rec" where
  "Scan st [] [] v = Inr v"
| "Scan st (d # ds) (x # xs) v =
     (case (case d of
              DField index \<Rightarrow>
                (case convertAssign st index x of
                   Inl err \<Rightarrow> Inl err
                 | Inr y \<Rightarrow> Inr (v(index := y)))
            | DScanner s \<Rightarrow> s x v) of
        Inl err \<Rightarrow> Inl err
      | Inr v' \<Rightarrow> Scan st ds xs v')"
| "Scan st ds xs v = Inl (Msg ''sql: wrong number of destination arguments in Scan'')"

text \<open>One row: ask for the scanner overrides, build the targets, scan.\<close>

definition ScanRows_row ::
  "StructType \<Rightarrow> string list \<Rightarrow> nat list list \<Rightarrow> val list \<Rightarrow> error + rec" where
  "ScanRows_row st goNames indexes row =
     (case (case OverrideScan st of
              None \<Rightarrow> Inr None
            | Some os \<Rightarrow>
                (case os goNames of
                   Inl err \<Rightarrow> Inl (Wrap ''could not get scanner overrides'' err)
                 | Inr sc \<Rightarrow> Inr (Some sc))) of
        Inl err \<Rightarrow> Inl err
      | Inr scanners \<Rightarrow>
          (case Scan st (ScanRows_args scanners 0 indexes) row (zero st) of
             Inl err \<Rightarrow> Inl (Wrap ''ScanRows'' err)
           | Inr v \<Rightarrow> Inr v))"

fun ScanRows_next ::
  "StructType \<Rightarrow> string list \<Rightarrow> nat list list \<Rightarrow> val list list \<Rightarrow> rec list \<Rightarrow> error + rec list" where
  "ScanRows_next st goNames indexes [] arr = Inr arr"
| "ScanRows_next st goNames indexes (row # rest) arr =
     (case ScanRows_row st goNames indexes row of
        Inl err \<Rightarrow> Inl err
      | Inr v \<Rightarrow> ScanRows_next st goNames indexes rest (arr @ [v]))"

text \<open>
  \<^verbatim>\<open>ScanRows(rows, out)\<close>: the result is the error and the contents of the caller's
  slice \<^verbatim>\<open>*out\<close> after the call.
\<close>

fun ScanRows :: "env \<Rightarrow> Rows \<Rightarrow> gotype \<Rightarrow> rec list \<Rightarrow> error option \<times> rec list" where
  "ScanRows e rows (TPtr (TSlice (TStruct st))) out =
     (case getDescriptionFromType st of
        Inl err \<Rightarrow>
          (Some (Wrap ''could not get detailed reflection information for type'' err), out)
      | Inr vdesc \<Rightarrow>
          (case Columns rows of
             Inl err \<Rightarrow> (Some (Wrap ''ScanRows'' err), out)
           | Inr names \<Rightarrow>
               (case ScanRows_outer e vdesc names of
                  (goNames, indexes, missing) \<Rightarrow>
                    if length missing > 0
                    then (Some (MissingFields (TypeName st) missing), out)
                    else (case ScanRows_next st goNames indexes (data rows) [] of
                            Inl err \<Rightarrow> (Some err, out)
                          | Inr arr \<Rightarrow> (None, arr)))))"
| "ScanRows e rows (TPtr (TSlice vtyp)) out =
     (Some (KindError
        ''expected output to be pointer to slice of struct; was instead pointer to slice of''
        (Kind vtyp)), out)"
| "ScanRows e rows (TPtr styp) out =
     (Some (KindError ''expected output to be pointer to slice; was instead pointer to''
        (Kind styp)), out)"
| "ScanRows e rows t out =
     (Some (KindError ''expected output to be a pointer; was instead'' (Kind t)), out)"

section \<open>Queries\<close>

text \<open>
  The optional query logger observes each statement before and after it runs; it returns
  nothing and takes no part in what is executed, so the model leaves it out.
\<close>

fun FindWhere ::
  "env \<Rightarrow> Querier \<Rightarrow> event list \<Rightarrow> gotype \<Rightarrow> rec list \<Rightarrow> string \<Rightarrow> val list
     \<Rightarrow> error option \<times> rec list \<times> event list" where
  "FindWhere e db tr (TPtr (TSlice (TStruct st))) out whereClause args =
     (case getDescriptionFromType st of
        Inl err \<Rightarrow>
          (Some (Wrap
             ''FindWhere: could not get detailed reflection information for type'' err),
           out, tr)
      | Inr vdesc \<Rightarrow>
          (let tbl = getSQLTableName e vdesc;
               whereClause = (if whereClause \<noteq> '''' then '' '' @ whereClause else whereClause);
               query = ''select * from '' @ tbl @ whereClause
           in case QueryContext db tr query args of
                Inl err \<Rightarrow> (Some (Wrap ''FindWhere'' err), out, tr @ [EvQuery query args])
              | Inr rows \<Rightarrow>
                  (case ScanRows e rows (TPtr (TSlice (TStruct st))) out of
                     (Some err, out') \<Rightarrow> (Some err, out', tr @ [EvQuery query args])
                   | (None, out') \<Rightarrow>
                       (case Close rows of
                          Some err \<Rightarrow>
                            (Some (Wrap ''FindWhere'' err), out', tr @ [EvQuery query args])
                        | None \<Rightarrow> (None, out', tr @ [EvQuery query args])))))"
| "FindWhere e db tr (TPtr (TSlice vtyp)) out whereClause args =
     (Some (KindError
        ''expected output to be pointer to slice of struct; was instead pointer to slice of''
        (Kind vtyp)), out, tr)"
| "FindWhere e db tr (TPtr styp) out whereClause args =
     (Some (KindError ''expected output to be pointer to slice; was instead pointer to''
        (Kind styp)), out, tr)"
| "FindWhere e db tr t out whereClause args =
     (Some (KindError ''expected output to be a pointer; was instead'' (Kind t)), out, tr)"

fun FindFirstWhere ::
  "env \<Rightarrow> Querier \<Rightarrow> event list \<Rightarrow> gotype \<Rightarrow> rec \<Rightarrow> string \<Rightarrow> val list
     \<Rightarrow> error option \<times> rec \<times> event list" where
  "FindFirstWhere e db tr (TPtr (TStruct st)) out whereClause args =
     (let whereClause = (if whereClause \<noteq> '''' then whereClause @ '' '' else whereClause)
      in case FindWhere e db tr (TPtr (TSlice (TStruct st))) [] (whereClause @ ''limit 1'') args of
           (Some err, arr, tr') \<Rightarrow> (Some err, out, tr')
         | (None, arr, tr') \<Rightarrow>
             if length arr = 0 then (Some ErrNoRows, out, tr') else (None, arr ! 0, tr'))"
| "FindFirstWhere e db tr (TPtr vtyp) out whereClause args =
     (Some (KindError ''expected output to be pointer to struct; was instead pointer to''
        (Kind vtyp)), out, tr)"
| "FindFirstWhere e db tr t out whereClause args =
     (Some (KindError ''expected output to be a pointer; was instead'' (Kind t)), out, tr)"

section \<open>Save\<close>

text \<open>The loop of \<^verbatim>\<open>SaveRecord\<close> that builds the identity WHERE clause.\<close>

fun SaveRecord_where ::
  "env \<Rightarrow> rec \<Rightarrow> Field list \<Rightarrow> string \<Rightarrow> val list \<Rightarrow> string \<times> val list" where
  "SaveRecord_where e r [] whereClause values = (whereClause, values)"
| "SaveRecord_where e r (idField # idFields) whereClause values =
     (let whereClause =
            (if whereClause = '''' then whereClause @ ''where '' else whereClause @ '' and '');
          whereClause =
            whereClause @ getSQLColumnName e idField @ '' = ''
              @ makeParameter e (length values + 1);
          values = values @ [r (Index idField)]
      in SaveRecord_where e r idFields whereClause values)"

text \<open>The loop of \<^verbatim>\<open>SaveRecord\<close> that compares with the snapshot and builds the SET list.\<close>

fun SaveRecord_set ::
  "env \<Rightarrow> rec \<Rightarrow> rec \<Rightarrow> Field list \<Rightarrow> string \<Rightarrow> val list \<Rightarrow> bool
     \<Rightarrow> string \<times> val list \<times> bool" where
  "SaveRecord_set e previous r [] setFields values modify = (setFields, values, modify)"
| "SaveRecord_set e previous r (f # fs) setFields values modify =
     (if (case Tag f ''sql'' of None \<Rightarrow> False | Some t \<Rightarrow> Parameter t ''readonly'' \<noteq> None)
      then SaveRecord_set e previous r fs setFields values modify
      else if (case Tag f ''readonly'' of None \<Rightarrow> False | Some t \<Rightarrow> Value t \<noteq> '''')
      then SaveRecord_set e previous r fs setFields values modify
      else if DeepEqual (previous (Index f)) (r (Index f))
      then SaveRecord_set e previous r fs setFields values modify
      else (let setFields = (if setFields = '''' then setFields @ ''set '' else setFields @ '', '');
                setFields =
                  setFields @ getSQLColumnName e f @ '' = '' @ makeParameter e (length values + 1);
                values = values @ [r (Index f)]
            in SaveRecord_set e previous r fs setFields values True))"

text \<open>\<^verbatim>\<open>SaveRecord\<close> after the before-hook, by the dynamic type of the input.\<close>

fun SaveRecord_input ::
  "env \<Rightarrow> Querier \<Rightarrow> event list \<Rightarrow> Input \<Rightarrow> rec \<Rightarrow> gotype
     \<Rightarrow> error option \<times> rec \<times> event list" where
  "SaveRecord_input e db tr input r (TPtr (TStruct st)) =
     (case getDescriptionFromType st of
        Inl err \<Rightarrow>
          (Some (Wrap
             ''SaveRecord: could not get detailed reflection information for type'' err),
           r, tr)
      | Inr vdesc \<Rightarrow>
          (let idFields = getSQLIDFields vdesc
           in if length idFields = 0
              then (Some (Msg ''SaveRecord: couldn't determine ID field(s)''), r, tr)
              else
                (case SaveRecord_where e r idFields '''' [] of
                   (whereClause, values) \<Rightarrow>
                     (case FindFirstWhere e db tr (TPtr (TStruct st)) (zero st) whereClause values of
                        (Some err, previous, tr) \<Rightarrow>
                          (Some (Wrap ''SaveRecord: couldn't find record'' err), r, tr)
                      | (None, previous, tr) \<Rightarrow>
                          (case SaveRecord_set e previous r
                                  (WithoutTagValue ''sql'' ''-'' (Fields vdesc)) '''' values False of
                             (setFields, values, modify) \<Rightarrow>
                               if \<not> modify then (None, r, tr)
                               else
                                 (let tbl = getSQLTableName e vdesc;
                                      query =
                                        ''update '' @ tbl @ '' '' @ setFields @ '' '' @ whereClause
                                  in case ExecContext db tr query values of
                                       Some err \<Rightarrow>
                                         (Some (Wrap ''SaveRecord'' err), r,
                                          tr @ [EvExec query values])
                                     | None \<Rightarrow>
                                         (case run_hook ''AfterSave'' (AfterSave input) r
                                                 (tr @ [EvExec query values]) of
                                            (Some err, r, tr) \<Rightarrow>
                                              (Some (Wrap
                                                 ''SaveRecord: AfterSave callback returned an error''
                                                 err), r, tr)
                                          | (None, r, tr) \<Rightarrow> (None, r, tr))))))))"
| "SaveRecord_input e db tr input r (TPtr vtyp) =
     (Some (KindError
        ''SaveRecord: expected input to be pointer to struct; was instead pointer to''
        (Kind vtyp)), r, tr)"
| "SaveRecord_input e db tr input r t =
     (Some (KindError ''SaveRecord: expected input to be a pointer; was instead'' (Kind t)),
      r, tr)"

definition SaveRecord ::
  "env \<Rightarrow> Querier \<Rightarrow> event list \<Rightarrow> Input \<Rightarrow> error option \<times> rec \<times> event list" where
  "SaveRecord e db tr input =
     (case run_hook ''BeforeSave'' (BeforeSave input) (InputValue input) tr of
        (Some err, r, tr) \<Rightarrow>
          (Some (Wrap ''SaveRecord: BeforeSave callback returned an error'' err), r, tr)
      | (None, r, tr) \<Rightarrow> SaveRecord_input e db tr input r (InputType input))"

section \<open>Create, replace and delete\<close>

fun Join :: "string list \<Rightarrow> string \<Rightarrow> string" where
  "Join [] sep = ''''"
| "Join [a] sep = a"
| "Join (a # b # l) sep = a @ sep @ Join (b # l) sep"

text \<open>The loop of \<^verbatim>\<open>CreateRecord\<close> over the fields that are not excluded.\<close>

fun CreateRecord_columns ::
  "env \<Rightarrow> rec \<Rightarrow> bool \<Rightarrow> Field list \<Rightarrow> string list \<Rightarrow> string list \<Rightarrow> val list \<Rightarrow> bool
     \<Rightarrow> string list \<times> string list \<times> val list \<times> bool" where
  "CreateRecord_columns e r basicID [] a1 a2 values fetchID = (a1, a2, values, fetchID)"
| "CreateRecord_columns e r basicID (f # fs) a1 a2 values fetchID =
     (if basicID \<and> Name f = ''ID'' \<and> isZero (r (Index f))
      then CreateRecord_columns e r basicID fs a1 a2 values True
      else (let a1 = a1 @ [getSQLColumnName e f];
                a2 = a2 @ [makeParameter e (length a1)];
                values = values @ [r (Index f)]
            in CreateRecord_columns e r basicID fs a1 a2 values fetchID))"

text \<open>
  The follow-up query of \<^verbatim>\<open>CreateRecord\<close>: the single value of
  \<^verbatim>\<open>select last_insert_rowid()\<close> is scanned into the field that \<^verbatim>\<open>FieldByName("ID")\<close>
  finds.
\<close>

definition CreateRecord_fetch ::
  "Querier \<Rightarrow> event list \<Rightarrow> StructType \<Rightarrow> StructDescription \<Rightarrow> rec
     \<Rightarrow> error option \<times> rec \<times> event list" where
  "CreateRecord_fetch db tr st vdesc r =
     (let query = ''select last_insert_rowid()''
      in case FieldNamed vdesc ''ID'' of
           None \<Rightarrow>
             (Some (Msg ''panic: reflect: call of reflect.Value.Addr on zero Value''), r, tr)
         | Some f \<Rightarrow>
             (case (case QueryRowContext db tr query [] of
                      Inl err \<Rightarrow> Inl err
                    | Inr x \<Rightarrow> convertAssign st (Index f) x) of
                Inl err \<Rightarrow>
                  (Some (Wrap ''CreateRecord: couldn't fetch insert id'' err), r,
                   tr @ [EvQueryRow query []])
              | Inr y \<Rightarrow> (None, r(Index f := y), tr @ [EvQueryRow query []])))"

fun CreateRecord_input ::
  "env \<Rightarrow> Querier \<Rightarrow> event list \<Rightarrow> Input \<Rightarrow> rec \<Rightarrow> gotype
     \<Rightarrow> error option \<times> rec \<times> event list" where
  "CreateRecord_input e db tr input r (TPtr (TStruct st)) =
     (case getDescriptionFromType st of
        Inl err \<Rightarrow>
          (Some (Wrap
             ''CreateRecord: could not get detailed reflection information for type'' err),
           r, tr)
      | Inr vdesc \<Rightarrow>
          (let idFields = getSQLIDFields vdesc
           in if length idFields = 0
              then (Some (Msg ''CreateRecord: couldn't determine ID field(s)''), r, tr)
              else
                (let basicID = (length idFields = 1 \<and> Name (idFields ! 0) = ''ID'')
                 in case CreateRecord_columns e r basicID
                           (WithoutTagValue ''sql'' ''-'' (Fields vdesc)) [] [] [] False of
                      (a1, a2, values, fetchID) \<Rightarrow>
                        (let tbl = getSQLTableName e vdesc;
                             query =
                               ''insert into '' @ tbl @ '' ('' @ Join a1 '', '' @ '') values (''
                                 @ Join a2 '', '' @ '')''
                         in case ExecContext db tr query values of
                              Some err \<Rightarrow>
                                (Some (Wrap ''CreateRecord'' err), r, tr @ [EvExec query values])
                            | None \<Rightarrow>
                                (case (if basicID \<and> fetchID
                                       then CreateRecord_fetch db (tr @ [EvExec query values])
                                              st vdesc r
                                       else (None, r, tr @ [EvExec query values])) of
                                   (Some err, r, tr) \<Rightarrow> (Some err, r, tr)
                                 | (None, r, tr) \<Rightarrow>
                                     (case run_hook ''AfterCreate'' (AfterCreate input) r tr of
                                        (Some err, r, tr) \<Rightarrow>
                                          (Some (Wrap
                                             ''CreateRecord: AfterCreate callback returned an error''
                                             err), r, tr)
                                      | (None, r, tr) \<Rightarrow> (None, r, tr)))))))"
| "CreateRecord_input e db tr input r (TPtr vtyp) =
     (Some (KindError
        ''CreateRecord: expected input to be pointer to struct; was instead pointer to''
        (Kind vtyp)), r, tr)"
| "CreateRecord_input e db tr input r t =
     (Some (KindError ''CreateRecord: expected input to be a pointer; was instead'' (Kind t)),
      r, tr)"

definition CreateRecord ::
  "env \<Rightarrow> Querier \<Rightarrow> event list \<Rightarrow> Input \<Rightarrow> error option \<times> rec \<times> event list" where
  "CreateRecord e db tr input =
     (case run_hook ''BeforeCreate'' (BeforeCreate input) (InputValue input) tr of
        (Some err, r, tr) \<Rightarrow>
          (Some (Wrap ''CreateRecord: BeforeCreate callback returned an error'' err), r, tr)
      | (None, r, tr) \<Rightarrow> CreateRecord_input e db tr input r (InputType input))"

text \<open>The loop of \<^verbatim>\<open>ReplaceRecord\<close> over the fields that are not excluded.\<close>

fun ReplaceRecord_columns ::
  "env \<Rightarrow> rec \<Rightarrow> Field list \<Rightarrow> string list \<Rightarrow> string list \<Rightarrow> val list
     \<Rightarrow> string list \<times> string list \<times> val list" where
  "ReplaceRecord_columns e r [] a1 a2 values = (a1, a2, values)"
| "ReplaceRecord_columns e r (f # fs) a1 a2 values =
     (let a1 = a1 @ [getSQLColumnName e f];
          a2 = a2 @ [makeParameter e (length a1)];
          values = values @ [r (Index f)]
      in ReplaceRecord_columns e r fs a1 a2 values)"

fun ReplaceRecord_input ::
  "env \<Rightarrow> Querier \<Rightarrow> event list \<Rightarrow> Input \<Rightarrow> rec \<Rightarrow> gotype
     \<Rightarrow> error option \<times> rec \<times> event list" where
  "ReplaceRecord_input e db tr input r (TPtr (TStruct st)) =
     (case getDescriptionFromType st of
        Inl err \<Rightarrow>
          (Some (Wrap
             ''ReplaceRecord: could not get detailed reflection information for type'' err),
           r, tr)
      | Inr vdesc \<Rightarrow>
          (let idFields = getSQLIDFields vdesc
           in if length idFields = 0
              then (Some (Msg ''ReplaceRecord: couldn't determine ID field(s)''), r, tr)
              else
                (case ReplaceRecord_columns e r
                        (WithoutTagValue ''sql'' ''-'' (Fields vdesc)) [] [] [] of
                   (a1, a2, values) \<Rightarrow>
                     (let tbl = getSQLTableName e vdesc;
                          query =
                            ''insert or replace into '' @ tbl @ '' ('' @ Join a1 '', ''
                              @ '') values ('' @ Join a2 '', '' @ '')''
                      in case ExecContext db tr query values of
                           Some err \<Rightarrow>
                             (Some (Wrap ''ReplaceRecord'' err), r, tr @ [EvExec query values])
                         | None \<Rightarrow>
                             (case run_hook ''AfterReplace'' (AfterReplace input) r
                                     (tr @ [EvExec query values]) of
                                (Some err, r, tr) \<Rightarrow>
                                  (Some (Wrap
                                     ''ReplaceRecord: AfterReplace callback returned an error''
                                     err), r, tr)
                              | (None, r, tr) \<Rightarrow> (None, r, tr))))))"
| "ReplaceRecord_input e db tr input r (TPtr vtyp) =
     (Some (KindError
        ''ReplaceRecord: expected input to be pointer to struct; was instead pointer to''
        (Kind vtyp)), r, tr)"
| "ReplaceRecord_input e db tr input r t =
     (Some (KindError ''ReplaceRecord: expected input to be a pointer; was instead'' (Kind t)),
      r, tr)"

definition ReplaceRecord ::
  "env \<Rightarrow> Querier \<Rightarrow> event list \<Rightarrow> Input \<Rightarrow> error option \<times> rec \<times> event list" where
  "ReplaceRecord e db tr input =
     (case run_hook ''BeforeReplace'' (BeforeReplace input) (InputValue input) tr of
        (Some err, r, tr) \<Rightarrow>
          (Some (Wrap ''ReplaceRecord: BeforeReplace callback returned an error'' err), r, tr)
      | (None, r, tr) \<Rightarrow> ReplaceRecord_input e db tr input r (InputType input))"

text \<open>The loop of \<^verbatim>\<open>DeleteRecord\<close> that builds the identity WHERE clause.\<close>

fun DeleteRecord_where ::
  "env \<Rightarrow> rec \<Rightarrow> Field list \<Rightarrow> string \<Rightarrow> val list \<Rightarrow> string \<times> val list" where
  "DeleteRecord_where e r [] whereClause values = (whereClause, values)"
| "DeleteRecord_where e r (f # fs) whereClause values =
     (let whereClause =
            (if whereClause = '''' then whereClause @ ''where '' else whereClause @ ''and '');
          whereClause =
            whereClause @ getSQLColumnName e f @ '' = '' @ makeParameter e (length values + 1);
          values = values @ [r (Index f)]
      in DeleteRecord_where e r fs whereClause values)"

fun DeleteRecord_input ::
  "env \<Rightarrow> Querier \<Rightarrow> event list \<Rightarrow> Input \<Rightarrow> rec \<Rightarrow> gotype
     \<Rightarrow> error option \<times> rec \<times> event list" where
  "DeleteRecord_input e db tr input r (TPtr (TStruct st)) =
     (case getDescriptionFromType st of
        Inl err \<Rightarrow>
          (Some (Wrap
             ''DeleteRecord: could not get detailed reflection information for type'' err),
           r, tr)
      | Inr vdesc \<Rightarrow>
          (let idFields = getSQLIDFields vdesc
           in if length idFields = 0
              then (Some (Msg ''DeleteRecord: couldn't determine ID field(s)''), r, tr)
              else
                (case DeleteRecord_where e r idFields '''' [] of
                   (whereClause, values) \<Rightarrow>
                     (let tbl = getSQLTableName e vdesc;
                          query = ''delete from '' @ tbl @ '' '' @ whereClause
                      in case ExecContext db tr query values of
                           Some err \<Rightarrow>
                             (Some (Wrap ''DeleteRecord'' err), r, tr @ [EvExec query values])
                         | None \<Rightarrow>
                             (case run_hook ''AfterDelete'' (AfterDelete input) r
                                     (tr @ [EvExec query values]) of
                                (Some err, r, tr) \<Rightarrow>
                                  (Some (Wrap
                                     ''DeleteRecord: AfterDelete callback returned an error''
                                     err), r, tr)
                              | (None, r, tr) \<Rightarrow> (None, r, tr))))))"
| "DeleteRecord_input e db tr input r (TPtr vtyp) =
     (Some (KindError
        ''DeleteRecord: expected input to be pointer to struct; was instead pointer to''
        (Kind vtyp)), r, tr)"
| "DeleteRecord_input e db tr input r t =
     (Some (KindError ''DeleteRecord: expected input to be a pointer; was instead'' (Kind t)),
      r, tr)"

definition DeleteRecord ::
  "env \<Rightarrow> Querier \<Rightarrow> event list \<Rightarrow> Input \<Rightarrow> error option \<times> rec \<times> event list" where
  "DeleteRecord e db tr input =
     (case run_hook ''BeforeDelete'' (BeforeDelete input) (InputValue input) tr of
        (Some err, r, tr) \<Rightarrow>
          (Some (Wrap ''DeleteRecord: BeforeDelete callback returned an error'' err), r, tr)
      | (None, r, tr) \<Rightarrow> DeleteRecord_input e db tr input r (InputType input))"

section \<open>Sample types and a sample database\<close>

text \<open>
  The record types of the package's tests, for evaluating the operations on concrete
  inputs: \<^verbatim>\<open>SimpleObject{ID int; Name string}\<close> and
  \<^verbatim>\<open>CompositeIDObject{ID1 int `sql:",id"`; ID2 int `sql:",id"`; Name string}\<close>, with the
  snake-case names the tests expect for their fields and type names.
\<close>

definition sample_snake :: "string \<Rightarrow> string" where
  "sample_snake s =
     (if s = ''ID'' then ''id''
      else if s = ''ID1'' then ''id_1''
      else if s = ''ID2'' then ''id_2''
      else if s = ''Name'' then ''name''
      else if s = ''Secret'' then ''secret''
      else if s = ''SimpleObject'' then ''simple_object''
      else if s = ''CompositeIDObject'' then ''composite_id_object''
      else if s = ''SecretObject'' then ''secret_object''
      else if s = ''TwinObject'' then ''twin_object''
      else s)"

definition sample_env :: env where
  "sample_env = \<lparr>parameterPrefix = '''', CamelToSnake = sample_snake\<rparr>"

text \<open>
  The conversion of \<^verbatim>\<open>rows.Scan\<close> into an \<open>int\<close> or a \<open>string\<close> field: an integer of
  the driver goes into an \<open>int\<close>, a string into a \<open>string\<close>, anything else is an error.
\<close>

definition sample_convert :: "(nat list \<Rightarrow> kind) \<Rightarrow> nat list \<Rightarrow> val \<Rightarrow> error + val" where
  "sample_convert kinds index x =
     (case x of
        VInt64 n \<Rightarrow>
          if kinds index = KInt then Inr (VInt n)
          else Inl (Msg ''sql: Scan error: unsupported conversion'')
      | VString s \<Rightarrow>
          if kinds index = KString then Inr (VString s)
          else Inl (Msg ''sql: Scan error: unsupported conversion'')
      | _ \<Rightarrow> Inl (Msg ''sql: Scan error: unsupported conversion''))"

definition plain_field :: "string \<Rightarrow> nat \<Rightarrow> Field" where
  "plain_field n i = \<lparr>Name = n, Index = [i], Tags = []\<rparr>"

definition sql_field :: "string \<Rightarrow> nat \<Rightarrow> string \<Rightarrow> (string \<times> string) list \<Rightarrow> Field" where
  "sql_field n i v ps =
     \<lparr>Name = n, Index = [i], Tags = [(''sql'', \<lparr>Value = v, Parameters = ps\<rparr>)]\<rparr>"

definition SimpleObject_desc :: StructDescription where
  "SimpleObject_desc =
     \<lparr>StructName = ''SimpleObject'', Fields = [plain_field ''ID'' 0, plain_field ''Name'' 1]\<rparr>"

definition SimpleObject_value :: "int \<Rightarrow> string \<Rightarrow> rec" where
  "SimpleObject_value i n = (\<lambda>index. VNil)([0] := VInt i, [1] := VString n)"

definition SimpleObject_type :: StructType where
  "SimpleObject_type =
     \<lparr>TypeName = ''SimpleObject'', description = Inr SimpleObject_desc,
      zero = SimpleObject_value 0 '''',
      convertAssign = sample_convert ((\<lambda>index. KInvalid)([0] := KInt, [1] := KString)),
      OverrideScan = None\<rparr>"

definition CompositeIDObject_desc :: StructDescription where
  "CompositeIDObject_desc =
     \<lparr>StructName = ''CompositeIDObject'',
      Fields = [sql_field ''ID1'' 0 '''' [(''id'', '''')], sql_field ''ID2'' 1 '''' [(''id'', '''')],
                plain_field ''Name'' 2]\<rparr>"

definition CompositeIDObject_value :: "int \<Rightarrow> int \<Rightarrow> string \<Rightarrow> rec" where
  "CompositeIDObject_value i j n =
     (\<lambda>index. VNil)([0] := VInt i, [1] := VInt j, [2] := VString n)"

definition CompositeIDObject_type :: StructType where
  "CompositeIDObject_type =
     \<lparr>TypeName = ''CompositeIDObject'', description = Inr CompositeIDObject_desc,
      zero = CompositeIDObject_value 0 0 '''',
      convertAssign =
        sample_convert ((\<lambda>index. KInvalid)([0] := KInt, [1] := KInt, [2] := KString)),
      OverrideScan = None\<rparr>"

text \<open>An input without hooks: a pointer to a struct of the given type.\<close>

definition pointer_to :: "StructType \<Rightarrow> rec \<Rightarrow> Input" where
  "pointer_to st r =
     \<lparr>InputType = TPtr (TStruct st), InputValue = r,
      BeforeSave = None, AfterSave = None, BeforeCreate = None, AfterCreate = None,
      BeforeReplace = None, AfterReplace = None, BeforeDelete = None, AfterDelete = None\<rparr>"

text \<open>
  A database that accepts every statement, answers every query with the given columns and
  rows, and every single-row query with the given value.
\<close>

definition sample_db :: "string list \<Rightarrow> val list list \<Rightarrow> val \<Rightarrow> Querier" where
  "sample_db cols rws x =
     \<lparr>ExecContext = (\<lambda>tr q args. None),
      QueryContext = (\<lambda>tr q args. Inr \<lparr>Columns = Inr cols, data = rws, Close = None\<rparr>),
      QueryRowContext = (\<lambda>tr q args. Inr x)\<rparr>"

definition SecretObject_desc :: StructDescription where
  "SecretObject_desc =
     \<lparr>StructName = ''SecretObject'',
      Fields = [plain_field ''ID'' 0, sql_field ''Secret'' 1 ''-'' []]\<rparr>"

definition SecretObject_type :: StructType where
  "SecretObject_type =
     \<lparr>TypeName = ''SecretObject'', description = Inr SecretObject_desc,
      zero = SimpleObject_value 0 '''',
      convertAssign = sample_convert ((\<lambda>index. KInvalid)([0] := KInt, [1] := KString)),
      OverrideScan = None\<rparr>"

definition TwinObject_desc :: StructDescription where
  "TwinObject_desc =
     \<lparr>StructName = ''TwinObject'',
      Fields = [sql_field ''A'' 0 ''x'' [], sql_field ''B'' 1 ''x'' []]\<rparr>"

definition NoIDObject_desc :: StructDescription where
  "NoIDObject_desc = \<lparr>StructName = ''NoIDObject'', Fields = [plain_field ''Name'' 1]\<rparr>"

definition NoIDObject_type :: StructType where
  "NoIDObject_type =
     \<lparr>TypeName = ''NoIDObject'', description = Inr NoIDObject_desc,
      zero = SimpleObject_value 0 '''',
      convertAssign = sample_convert ((\<lambda>index. KInvalid)([1] := KString)),
      OverrideScan = None\<rparr>"

text \<open>An input without hooks of any dynamic type.\<close>

definition plain_input :: "gotype \<Rightarrow> rec \<Rightarrow> Input" where
  "plain_input t r =
     \<lparr>InputType = t, InputValue = r,
      BeforeSave = None, AfterSave = None, BeforeCreate = None, AfterCreate = None,
      BeforeReplace = None, AfterReplace = None, BeforeDelete = None, AfterDelete = None\<rparr>"

text \<open>Sample hooks: one that fails and one that succeeds, both after changing the name.\<close>

definition failing_hook :: hook where
  "failing_hook r = (Some (Msg ''test error''), r([1] := VString ''touched''))"

definition touching_hook :: hook where
  "touching_hook r = (None, r([1] := VString ''touched''))"

definition with_before_hooks :: "hook \<Rightarrow> Input \<Rightarrow> Input" where
  "with_before_hooks h input =
     input\<lparr>BeforeSave := Some h, BeforeCreate := Some h, BeforeReplace := Some h,
           BeforeDelete := Some h\<rparr>"

section \<open>Notions used to state the properties\<close>

text \<open>
  The four mutating operations under one name, with the before-hook each one looks for and
  the names that appear in its error messages.
\<close>

datatype operation = OpCreate | OpSave | OpReplace | OpDelete

fun run_operation ::
  "operation \<Rightarrow> env \<Rightarrow> Querier \<Rightarrow> event list \<Rightarrow> Input \<Rightarrow> error option \<times> rec \<times> event list" where
  "run_operation OpCreate = CreateRecord"
| "run_operation OpSave = SaveRecord"
| "run_operation OpReplace = ReplaceRecord"
| "run_operation OpDelete = DeleteRecord"

fun before_hook :: "operation \<Rightarrow> Input \<Rightarrow> hook option" where
  "before_hook OpCreate = BeforeCreate"
| "before_hook OpSave = BeforeSave"
| "before_hook OpReplace = BeforeReplace"
| "before_hook OpDelete = BeforeDelete"

fun operation_name :: "operation \<Rightarrow> string" where
  "operation_name OpCreate = ''CreateRecord''"
| "operation_name OpSave = ''SaveRecord''"
| "operation_name OpReplace = ''ReplaceRecord''"
| "operation_name OpDelete = ''DeleteRecord''"

fun before_hook_name :: "operation \<Rightarrow> string" where
  "before_hook_name OpCreate = ''BeforeCreate''"
| "before_hook_name OpSave = ''BeforeSave''"
| "before_hook_name OpReplace = ''BeforeReplace''"
| "before_hook_name OpDelete = ''BeforeDelete''"

text \<open>The statements of a trace: everything but the hook invocations.\<close>

definition statements :: "event list \<Rightarrow> event list" where
  "statements tr = filter (\<lambda>ev. case ev of EvHook n \<Rightarrow> False | _ \<Rightarrow> True) tr"

text \<open>The fields that are not excluded (\<^verbatim>\<open>WithoutTagValue("sql", "-")\<close>).\<close>

definition included_fields :: "StructDescription \<Rightarrow> Field list" where
  "included_fields vdesc = WithoutTagValue ''sql'' ''-'' (Fields vdesc)"

text \<open>
  A field is read-only when its sql tag has the parameter \<^verbatim>\<open>readonly\<close> or it carries a
  non-empty \<^verbatim>\<open>readonly\<close> tag: the two tests by which \<^verbatim>\<open>SaveRecord\<close> skips a field.
\<close>

definition readonly_field :: "Field \<Rightarrow> bool" where
  "readonly_field f =
     ((case Tag f ''sql'' of None \<Rightarrow> False | Some t \<Rightarrow> Parameter t ''readonly'' \<noteq> None)
      \<or> (case Tag f ''readonly'' of None \<Rightarrow> False | Some t \<Rightarrow> Value t \<noteq> ''''))"

text \<open>
  The fields in which the in-memory record differs from the snapshot, among those that are
  neither excluded nor read-only, in declared order.
\<close>

definition changed_fields :: "StructDescription \<Rightarrow> rec \<Rightarrow> rec \<Rightarrow> Field list" where
  "changed_fields vdesc previous r =
     filter (\<lambda>f. \<not> readonly_field f \<and> \<not> DeepEqual (previous (Index f)) (r (Index f)))
       (included_fields vdesc)"

text \<open>
  The column resolution as the specification words it: three lookups, each taking the
  first field that matches, tried in order.
\<close>

definition spec_by_tag :: "StructDescription \<Rightarrow> string \<Rightarrow> Field option" where
  "spec_by_tag vdesc name =
     find (\<lambda>f. case Tag f ''sql'' of None \<Rightarrow> False | Some t \<Rightarrow> Value t = name) (Fields vdesc)"

definition spec_by_name :: "StructDescription \<Rightarrow> string \<Rightarrow> Field option" where
  "spec_by_name vdesc name = find (\<lambda>f. Name f = name) (Fields vdesc)"

definition spec_by_snake :: "env \<Rightarrow> StructDescription \<Rightarrow> string \<Rightarrow> Field option" where
  "spec_by_snake e vdesc name = find (\<lambda>f. CamelToSnake e (Name f) = name) (Fields vdesc)"

definition first_of :: "'a option \<Rightarrow> 'a option \<Rightarrow> 'a option" where
  "first_of a b = (case a of Some x \<Rightarrow> Some x | None \<Rightarrow> b)"

definition spec_resolve :: "env \<Rightarrow> StructDescription \<Rightarrow> string \<Rightarrow> Field option" where
  "spec_resolve e vdesc name =
     first_of (spec_by_tag vdesc name)
       (first_of (spec_by_name vdesc name) (spec_by_snake e vdesc name))"

text \<open>
  The same with the gate of the code on the first lookup: a tag value that several fields
  carry is passed over.
\<close>

definition gated_resolve :: "env \<Rightarrow> StructDescription \<Rightarrow> string \<Rightarrow> Field option" where
  "gated_resolve e vdesc name =
     (if length (WithTagValue ''sql'' name (Fields vdesc)) > 1
      then first_of (spec_by_name vdesc name) (spec_by_snake e vdesc name)
      else spec_resolve e vdesc name)"

text \<open>
  The INSERT statement for a list of fields: their columns in order, with the placeholders
  numbered from 1; and the values of these fields in a record.
\<close>

definition insert_query :: "string \<Rightarrow> env \<Rightarrow> StructDescription \<Rightarrow> Field list \<Rightarrow> string" where
  "insert_query verb e vdesc fs =
     verb @ '' into '' @ getSQLTableName e vdesc
       @ '' ('' @ Join (map (getSQLColumnName e) fs) '', ''
       @ '') values ('' @ Join (map (\<lambda>i. makeParameter e (Suc i)) [0 ..< length fs]) '', ''
       @ '')''"

definition field_values :: "rec \<Rightarrow> Field list \<Rightarrow> val list" where
  "field_values r fs = map (\<lambda>f. r (Index f)) fs"

definition target_name :: "Field option \<Rightarrow> string" where
  "target_name x = (case x of Some f \<Rightarrow> Name f | None \<Rightarrow> '''')"

definition target_index :: "Field option \<Rightarrow> nat list" where
  "target_index x = (case x of Some f \<Rightarrow> Index f | None \<Rightarrow> [])"

section \<open>Evaluation and helper lemmas\<close>

lemmas sample_defs =
  sample_env_def sample_db_def pointer_to_def sample_snake_def sample_convert_def
  plain_field_def sql_field_def
  SimpleObject_type_def SimpleObject_desc_def SimpleObject_value_def
  CompositeIDObject_type_def CompositeIDObject_desc_def CompositeIDObject_value_def
  SecretObject_type_def SecretObject_desc_def TwinObject_desc_def
  NoIDObject_desc_def NoIDObject_type_def plain_input_def
  failing_hook_def touching_hook_def with_before_hooks_def

lemmas model_defs =
  run_hook_def getDescriptionFromType_def getSQLIDFields_def WithoutTagValue_def
  WithTagValue_def Tag_def Parameter_def has_id_parameter_def FieldNamed_def
  getSQLColumnName_def getSQLTableName_def makeParameter_def digit_char_def
  string_of_nat.simps ScanRows_column_def ScanRows_row_def
  included_fields_def readonly_field_def changed_fields_def DeepEqual_def statements_def

lemma statements_append [simp]: "statements (a @ b) = statements a @ statements b"
  by (simp add: statements_def)

lemma statements_run_hook:
  "run_hook n h r tr = (err, r', tr') \<Longrightarrow> statements tr' = statements tr"
  by (auto simp: run_hook_def statements_def split: option.splits)

lemma statements_simps [simp]:
  "statements [] = []"
  "statements (EvExec q a # tr) = EvExec q a # statements tr"
  "statements (EvQuery q a # tr) = EvQuery q a # statements tr"
  "statements (EvQueryRow q a # tr) = EvQueryRow q a # statements tr"
  "statements (EvHook n # tr) = statements tr"
  by (simp_all add: statements_def)

subsection \<open>The loops of SaveRecord\<close>

lemma SaveRecord_set_unchanged:
  "filter (\<lambda>f. \<not> readonly_field f \<and> \<not> DeepEqual (previous (Index f)) (r (Index f))) fs = []
   \<Longrightarrow> SaveRecord_set e previous r fs s vals m = (s, vals, m)"
  by (induction fs) (auto simp: readonly_field_def split: if_splits)

lemma SaveRecord_set_single:
  "filter (\<lambda>f. \<not> readonly_field f \<and> \<not> DeepEqual (previous (Index f)) (r (Index f))) fs = [f]
   \<Longrightarrow> SaveRecord_set e previous r fs '''' vals m =
       (''set '' @ getSQLColumnName e f @ '' = '' @ makeParameter e (length vals + 1),
        vals @ [r (Index f)], True)"
proof (induction fs)
  case Nil
  then show ?case by simp
next
  case (Cons g gs)
  show ?case
  proof (cases "\<not> readonly_field g \<and> \<not> DeepEqual (previous (Index g)) (r (Index g))")
    case True
    with Cons.prems have g: "g = f"
      and rest: "filter (\<lambda>f. \<not> readonly_field f \<and> \<not> DeepEqual (previous (Index f)) (r (Index f))) gs = []"
      by simp_all
    from True have "SaveRecord_set e previous r (g # gs) '''' vals m =
        SaveRecord_set e previous r gs
          (''set '' @ getSQLColumnName e g @ '' = '' @ makeParameter e (length vals + 1))
          (vals @ [r (Index g)]) True"
      by (simp add: readonly_field_def Let_def)
    with g show ?thesis
      by (simp only: SaveRecord_set_unchanged [OF rest])
  next
    case False
    with Cons.prems have rest:
      "filter (\<lambda>f. \<not> readonly_field f \<and> \<not> DeepEqual (previous (Index f)) (r (Index f))) gs = [f]"
      by simp
    from False have "SaveRecord_set e previous r (g # gs) '''' vals m =
        SaveRecord_set e previous r gs '''' vals m"
      by (auto simp: readonly_field_def)
    with Cons.IH [OF rest] show ?thesis by simp
  qed
qed

lemma FindWhere_trace:
  "FindWhere e db tr (TPtr (TSlice (TStruct st))) out w args = (None, arr, tr2)
   \<Longrightarrow> \<exists>q. tr2 = tr @ [EvQuery q args]"
  by (auto simp: Let_def split: sum.splits option.splits prod.splits)

lemma FindFirstWhere_trace:
  "FindFirstWhere e db tr (TPtr (TStruct st)) out w args = (None, p, tr2)
   \<Longrightarrow> \<exists>q. tr2 = tr @ [EvQuery q args]"
  apply (simp only: FindFirstWhere.simps Let_def split: prod.splits option.splits if_splits)
  using FindWhere_trace by blast+

section \<open>Save: the diff against the snapshot\<close>

text \<open>
  Claim C1. Suppose the input is a pointer to a struct with at least one identity field, the
  before-hook (if any) succeeds, and the snapshot fetched with the identity WHERE clause
  differs from the in-memory record in exactly one field \<open>f\<close> among those that are neither
  excluded nor read-only. Then the statements of \<^verbatim>\<open>SaveRecord\<close> are those of the snapshot
  fetch followed by exactly one UPDATE, whose SET list is \<open>column(f) = placeholder\<close> and
  nothing else, the placeholder numbered after the identity arguments and the new value of
  \<open>f\<close> appended to the argument list.
\<close>

theorem SaveRecord_single_change:
  assumes ptr: "InputType input = TPtr (TStruct st)"
    and desc: "getDescriptionFromType st = Inr vdesc"
    and hook: "run_hook ''BeforeSave'' (BeforeSave input) (InputValue input) tr = (None, r, tr1)"
    and ids: "getSQLIDFields vdesc \<noteq> []"
    and wh: "SaveRecord_where e r (getSQLIDFields vdesc) '''' [] = (w, vals)"
    and snap: "FindFirstWhere e db tr1 (TPtr (TStruct st)) (zero st) w vals = (None, previous, tr2)"
    and one: "changed_fields vdesc previous r = [f]"
  shows "statements (snd (snd (SaveRecord e db tr input))) =
           statements tr2 @
           [EvExec (''update '' @ getSQLTableName e vdesc @ '' set '' @ getSQLColumnName e f
                      @ '' = '' @ makeParameter e (length vals + 1) @ '' '' @ w)
                   (vals @ [r (Index f)])]"
proof -
  let ?q = "''update '' @ getSQLTableName e vdesc @ '' set '' @ getSQLColumnName e f
                      @ '' = '' @ makeParameter e (length vals + 1) @ '' '' @ w"
  let ?ev = "EvExec ?q (vals @ [r (Index f)])"
  have loop: "SaveRecord_set e previous r (WithoutTagValue ''sql'' ''-'' (Fields vdesc)) '''' vals False
      = (''set '' @ getSQLColumnName e f @ '' = '' @ makeParameter e (length vals + 1),
         vals @ [r (Index f)], True)"
    using one unfolding changed_fields_def included_fields_def
    by (rule SaveRecord_set_single)
  obtain err r' tr' where h: "run_hook ''AfterSave'' (AfterSave input) r (tr2 @ [?ev]) = (err, r', tr')"
    by (cases "run_hook ''AfterSave'' (AfterSave input) r (tr2 @ [?ev])") auto
  have st: "statements tr' = statements tr2 @ [?ev]"
    using statements_run_hook [OF h] by (simp add: statements_def)
  have "statements (snd (snd (SaveRecord_input e db tr1 input r (TPtr (TStruct st))))) =
      statements tr2 @ [?ev]"
    using desc ids wh snap loop h st
    by (cases err; cases "ExecContext db tr2 ?q (vals @ [r (Index f)])") (simp_all add: statements_def)
  then show ?thesis
    using hook ptr by (simp add: SaveRecord_def)
qed

theorem SaveRecord_single_change_witness:
  "changed_fields SimpleObject_desc
     (fst (snd (FindFirstWhere sample_env
        (sample_db [''id'', ''name''] [[VInt64 1, VString ''test1'']] VNil) []
        (TPtr (TStruct SimpleObject_type)) (zero SimpleObject_type) ''where id = $1'' [VInt 1])))
     (SimpleObject_value 1 ''test1_modified'') = [plain_field ''Name'' 1]
   \<and> statements (snd (snd (SaveRecord sample_env
         (sample_db [''id'', ''name''] [[VInt64 1, VString ''test1'']] VNil) []
         (pointer_to SimpleObject_type (SimpleObject_value 1 ''test1_modified'')))))
       = [EvQuery ''select * from simple_objects where id = $1 limit 1'' [VInt 1],
          EvExec ''update simple_objects set name = $2 where id = $1''
            [VInt 1, VString ''test1_modified'']]"
proof -
  let ?db = "sample_db [''id'', ''name''] [[VInt64 1, VString ''test1'']] VNil"
  let ?r = "SimpleObject_value 1 ''test1_modified''"
  let ?input = "pointer_to SimpleObject_type ?r"
  let ?find = "FindFirstWhere sample_env ?db [] (TPtr (TStruct SimpleObject_type))
                 (zero SimpleObject_type) ''where id = $1'' [VInt 1]"
  have ptr: "InputType ?input = TPtr (TStruct SimpleObject_type)"
    by (simp add: pointer_to_def)
  have desc: "getDescriptionFromType SimpleObject_type = Inr SimpleObject_desc"
    by (simp add: getDescriptionFromType_def SimpleObject_type_def)
  have hook: "run_hook ''BeforeSave'' (BeforeSave ?input) (InputValue ?input) [] = (None, ?r, [])"
    by (simp add: run_hook_def pointer_to_def)
  have ids: "getSQLIDFields SimpleObject_desc \<noteq> []"
    by (simp add: sample_defs model_defs)
  have wh: "SaveRecord_where sample_env ?r (getSQLIDFields SimpleObject_desc) '''' []
              = (''where id = $1'', [VInt 1])"
    by (simp add: sample_defs model_defs)
  have tr2: "snd (snd ?find) = [EvQuery ''select * from simple_objects where id = $1 limit 1'' [VInt 1]]"
    by (simp add: sample_defs model_defs)
  have ok: "fst ?find = None"
    by (simp add: sample_defs model_defs)
  have snap: "?find = (None, fst (snd ?find), snd (snd ?find))"
    using ok by (metis prod.collapse)
  have one: "changed_fields SimpleObject_desc (fst (snd ?find)) ?r = [plain_field ''Name'' 1]"
    by (simp add: sample_defs model_defs)
  have more: "getSQLTableName sample_env SimpleObject_desc = ''simple_objects''"
    "getSQLColumnName sample_env (plain_field ''Name'' 1) = ''name''"
    "makeParameter sample_env (length [VInt 1] + 1) = ''$2''"
    "?r (Index (plain_field ''Name'' 1)) = VString ''test1_modified''"
    by (simp_all add: sample_defs model_defs)
  from SaveRecord_single_change [OF ptr desc hook ids wh snap one] one tr2 more
  show ?thesis by (simp add: statements_def)
qed

text \<open>
  Claim C8. Under the same conditions, when no field that is neither excluded nor
  read-only differs from the snapshot, \<^verbatim>\<open>SaveRecord\<close> returns success, leaves the record as
  it is, and the only statement it has issued is the query that fetched the snapshot: no
  UPDATE is executed.
\<close>

theorem SaveRecord_unchanged_is_noop:
  assumes ptr: "InputType input = TPtr (TStruct st)"
    and desc: "getDescriptionFromType st = Inr vdesc"
    and hook: "run_hook ''BeforeSave'' (BeforeSave input) (InputValue input) tr = (None, r, tr1)"
    and ids: "getSQLIDFields vdesc \<noteq> []"
    and wh: "SaveRecord_where e r (getSQLIDFields vdesc) '''' [] = (w, vals)"
    and snap: "FindFirstWhere e db tr1 (TPtr (TStruct st)) (zero st) w vals = (None, previous, tr2)"
    and same: "changed_fields vdesc previous r = []"
  shows "SaveRecord e db tr input = (None, r, tr2) \<and> (\<exists>q. tr2 = tr1 @ [EvQuery q vals])"
proof -
  have loop: "SaveRecord_set e previous r (WithoutTagValue ''sql'' ''-'' (Fields vdesc)) '''' vals False
      = ('''', vals, False)"
    using same unfolding changed_fields_def included_fields_def
    by (rule SaveRecord_set_unchanged)
  have "SaveRecord_input e db tr1 input r (TPtr (TStruct st)) = (None, r, tr2)"
    using desc ids wh snap loop by simp
  then have "SaveRecord e db tr input = (None, r, tr2)"
    using hook ptr by (simp add: SaveRecord_def)
  moreover have "\<exists>q. tr2 = tr1 @ [EvQuery q vals]"
    using snap by (rule FindFirstWhere_trace)
  ultimately show ?thesis by simp
qed

theorem SaveRecord_unchanged_is_noop_witness:
  "changed_fields SimpleObject_desc
     (fst (snd (FindFirstWhere sample_env
        (sample_db [''id'', ''name''] [[VInt64 1, VString ''test1'']] VNil) []
        (TPtr (TStruct SimpleObject_type)) (zero SimpleObject_type) ''where id = $1'' [VInt 1])))
     (SimpleObject_value 1 ''test1'') = []
   \<and> SaveRecord sample_env (sample_db [''id'', ''name''] [[VInt64 1, VString ''test1'']] VNil) []
         (pointer_to SimpleObject_type (SimpleObject_value 1 ''test1''))
       = (None, SimpleObject_value 1 ''test1'',
          [EvQuery ''select * from simple_objects where id = $1 limit 1'' [VInt 1]])"
proof -
  let ?db = "sample_db [''id'', ''name''] [[VInt64 1, VString ''test1'']] VNil"
  let ?r = "SimpleObject_value 1 ''test1''"
  let ?input = "pointer_to SimpleObject_type ?r"
  let ?find = "FindFirstWhere sample_env ?db [] (TPtr (TStruct SimpleObject_type))
                 (zero SimpleObject_type) ''where id = $1'' [VInt 1]"
  have ptr: "InputType ?input = TPtr (TStruct SimpleObject_type)"
    by (simp add: pointer_to_def)
  have desc: "getDescriptionFromType SimpleObject_type = Inr SimpleObject_desc"
    by (simp add: getDescriptionFromType_def SimpleObject_type_def)
  have hook: "run_hook ''BeforeSave'' (BeforeSave ?input) (InputValue ?input) [] = (None, ?r, [])"
    by (simp add: run_hook_def pointer_to_def)
  have ids: "getSQLIDFields SimpleObject_desc \<noteq> []"
    by (simp add: sample_defs model_defs)
  have wh: "SaveRecord_where sample_env ?r (getSQLIDFields SimpleObject_desc) '''' []
              = (''where id = $1'', [VInt 1])"
    by (simp add: sample_defs model_defs)
  have tr2: "snd (snd ?find) = [EvQuery ''select * from simple_objects where id = $1 limit 1'' [VInt 1]]"
    by (simp add: sample_defs model_defs)
  have ok: "fst ?find = None"
    by (simp add: sample_defs model_defs)
  have snap: "?find = (None, fst (snd ?find), snd (snd ?find))"
    using ok by (metis prod.collapse)
  have same: "changed_fields SimpleObject_desc (fst (snd ?find)) ?r = []"
    by (simp add: sample_defs model_defs)
  from SaveRecord_unchanged_is_noop [OF ptr desc hook ids wh snap same] same tr2
  show ?thesis by simp
qed

section \<open>Create: the default identity\<close>

lemma CreateRecord_columns_eq:
  "CreateRecord_columns e r b fs a1 a2 vals fetch =
     (a1 @ map (getSQLColumnName e) (filter (\<lambda>f. \<not> (b \<and> Name f = ''ID'' \<and> isZero (r (Index f)))) fs),
      a2 @ map (\<lambda>i. makeParameter e (length a1 + Suc i))
             [0 ..< length (filter (\<lambda>f. \<not> (b \<and> Name f = ''ID'' \<and> isZero (r (Index f)))) fs)],
      vals @ map (\<lambda>f. r (Index f)) (filter (\<lambda>f. \<not> (b \<and> Name f = ''ID'' \<and> isZero (r (Index f)))) fs),
      fetch \<or> (\<exists>f \<in> set fs. b \<and> Name f = ''ID'' \<and> isZero (r (Index f))))"
proof (induction fs arbitrary: a1 a2 vals fetch)
  case Nil
  then show ?case by simp
next
  case (Cons g gs)
  show ?case
    using Cons.IH
    by (cases b) (auto simp add: Let_def map_upt_Suc simp del: upt_Suc)
qed

lemma getSQLIDFields_default:
  assumes noid: "filter has_id_parameter (included_fields vdesc) = []"
    and idf: "FieldNamed vdesc ''ID'' = Some idf"
    and incl: "idf \<in> set (included_fields vdesc)"
  shows "getSQLIDFields vdesc = [idf]"
  using assms
  by (auto simp: getSQLIDFields_def included_fields_def WithoutTagValue_def split: option.splits)

lemma FieldNamed_Some:
  "FieldNamed vdesc n = Some f \<Longrightarrow> Name f = n \<and> f \<in> set (Fields vdesc)"
  by (auto simp: FieldNamed_def find_Some_iff)

lemma distinct_names_unique:
  assumes "distinct (map Name fs)" "f \<in> set fs" "g \<in> set fs" "Name f = Name g"
  shows "f = g"
  using assms by (meson distinct_map inj_onD)

lemma included_subset: "f \<in> set (included_fields vdesc) \<Longrightarrow> f \<in> set (Fields vdesc)"
  by (simp add: included_fields_def WithoutTagValue_def)

lemma CreateRecord_columns_start:
  "CreateRecord_columns e r b fs [] [] [] False =
     (map (getSQLColumnName e) (filter (\<lambda>f. \<not> (b \<and> Name f = ''ID'' \<and> isZero (r (Index f)))) fs),
      map (\<lambda>i. makeParameter e (Suc i))
        [0 ..< length (filter (\<lambda>f. \<not> (b \<and> Name f = ''ID'' \<and> isZero (r (Index f)))) fs)],
      field_values r (filter (\<lambda>f. \<not> (b \<and> Name f = ''ID'' \<and> isZero (r (Index f)))) fs),
      \<exists>f \<in> set fs. b \<and> Name f = ''ID'' \<and> isZero (r (Index f)))"
  by (simp add: CreateRecord_columns_eq field_values_def)

lemma CreateRecord_input_struct:
  assumes desc: "getDescriptionFromType st = Inr vdesc"
    and ids: "getSQLIDFields vdesc = [idf]"
    and nm: "Name idf = ''ID''"
    and loop: "CreateRecord_columns e r True (WithoutTagValue ''sql'' ''-'' (Fields vdesc)) [] [] [] False
                 = (map (getSQLColumnName e) fs, map (\<lambda>i. makeParameter e (Suc i)) [0 ..< length fs],
                    field_values r fs, fetch)"
  shows "CreateRecord_input e db tr1 input r (TPtr (TStruct st)) =
     (case ExecContext db tr1 (insert_query ''insert'' e vdesc fs) (field_values r fs) of
        Some err \<Rightarrow>
          (Some (Wrap ''CreateRecord'' err), r,
           tr1 @ [EvExec (insert_query ''insert'' e vdesc fs) (field_values r fs)])
      | None \<Rightarrow>
          (case (if fetch
                 then CreateRecord_fetch db
                        (tr1 @ [EvExec (insert_query ''insert'' e vdesc fs) (field_values r fs)])
                        st vdesc r
                 else (None, r, tr1 @ [EvExec (insert_query ''insert'' e vdesc fs) (field_values r fs)])) of
             (Some err, r, tr) \<Rightarrow> (Some err, r, tr)
           | (None, r, tr) \<Rightarrow>
               (case run_hook ''AfterCreate'' (AfterCreate input) r tr of
                  (Some err, r, tr) \<Rightarrow>
                    (Some (Wrap ''CreateRecord: AfterCreate callback returned an error'' err), r, tr)
                | (None, r, tr) \<Rightarrow> (None, r, tr))))"
  using desc ids nm loop
  by (cases "ExecContext db tr1 (insert_query ''insert'' e vdesc fs) (field_values r fs)"; cases fetch)
     (simp_all add: insert_query_def Let_def del: upt_Suc)

lemma CreateRecord_fetch_statements:
  "FieldNamed vdesc ''ID'' = Some idf \<Longrightarrow>
   statements (snd (snd (CreateRecord_fetch db tr0 st vdesc r))) =
     statements tr0 @ [EvQueryRow ''select last_insert_rowid()'' []]"
  by (simp add: CreateRecord_fetch_def Let_def split: sum.splits)

lemma CreateRecord_fetch_assigns:
  "FieldNamed vdesc ''ID'' = Some idf \<Longrightarrow>
   QueryRowContext db tr0 ''select last_insert_rowid()'' [] = Inr x \<Longrightarrow>
   convertAssign st (Index idf) x = Inr y \<Longrightarrow>
   CreateRecord_fetch db tr0 st vdesc r =
     (None, r(Index idf := y), tr0 @ [EvQueryRow ''select last_insert_rowid()'' []])"
  by (simp add: CreateRecord_fetch_def Let_def)

lemma after_hook_statements:
  "statements (snd (snd (case run_hook n h r tr of
       (Some err, r', tr') \<Rightarrow> (Some (Wrap m err), r', tr')
     | (None, r', tr') \<Rightarrow> (None, r', tr')))) = statements tr"
  by (simp add: run_hook_def statements_def split: option.splits prod.splits)

lemma after_hook_record:
  "fst (snd (case run_hook n h r tr of
       (Some err, r', tr') \<Rightarrow> (Some (Wrap m err), r', tr')
     | (None, r', tr') \<Rightarrow> (None, r', tr'))) = fst (snd (run_hook n h r []))"
  by (simp add: run_hook_def split: option.splits prod.splits)

text \<open>
  Claim C2. Take a struct type with distinct field names, no field flagged \<^verbatim>\<open>id\<close> and a
  field \<open>ID\<close> that is not excluded, so that \<open>ID\<close> alone is the identity by default. When
  \<open>ID\<close> is zero (\<^verbatim>\<open>isZero\<close>), \<^verbatim>\<open>CreateRecord\<close> inserts the columns of all included fields but
  \<open>ID\<close>; if the INSERT fails nothing follows, and if it succeeds exactly one single-row
  query \<^verbatim>\<open>select last_insert_rowid()\<close> follows, whose converted result is stored in the
  \<open>ID\<close> field of the record handed to the after-hook. When \<open>ID\<close> is not zero, the column
  list is that of all included fields, \<open>ID\<close> among them, and the INSERT is the only
  statement.
\<close>

theorem CreateRecord_default_identity:
  assumes ptr: "InputType input = TPtr (TStruct st)"
    and desc: "getDescriptionFromType st = Inr vdesc"
    and hook: "run_hook ''BeforeCreate'' (BeforeCreate input) (InputValue input) tr = (None, r, tr1)"
    and noid: "filter has_id_parameter (included_fields vdesc) = []"
    and idf: "FieldNamed vdesc ''ID'' = Some idf"
    and incl: "idf \<in> set (included_fields vdesc)"
    and names: "distinct (map Name (Fields vdesc))"
  shows
    "(isZero (r (Index idf)) \<longrightarrow>
        (let fs = filter (\<lambda>f. Name f \<noteq> ''ID'') (included_fields vdesc);
             q = insert_query ''insert'' e vdesc fs;
             vs = field_values r fs;
             sel = ''select last_insert_rowid()''
         in (ExecContext db tr1 q vs \<noteq> None \<longrightarrow>
               statements (snd (snd (CreateRecord e db tr input))) = statements tr1 @ [EvExec q vs])
          \<and> (ExecContext db tr1 q vs = None \<longrightarrow>
               statements (snd (snd (CreateRecord e db tr input)))
                 = statements tr1 @ [EvExec q vs, EvQueryRow sel []]
               \<and> (\<forall>x y. QueryRowContext db (tr1 @ [EvExec q vs]) sel [] = Inr x
                         \<and> convertAssign st (Index idf) x = Inr y \<longrightarrow>
                     fst (snd (CreateRecord e db tr input))
                       = fst (snd (run_hook ''AfterCreate'' (AfterCreate input)
                                     (r(Index idf := y)) []))))))
   \<and> (\<not> isZero (r (Index idf)) \<longrightarrow>
        (let fs = included_fields vdesc;
             q = insert_query ''insert'' e vdesc fs;
             vs = field_values r fs
         in idf \<in> set fs
          \<and> statements (snd (snd (CreateRecord e db tr input))) = statements tr1 @ [EvExec q vs]))"
proof -
  let ?incl = "included_fields vdesc"
  have ids: "getSQLIDFields vdesc = [idf]"
    using noid idf incl by (rule getSQLIDFields_default)
  have nm: "Name idf = ''ID''"
    using FieldNamed_Some [OF idf] by simp
  have uniq: "f = idf" if "f \<in> set ?incl" "Name f = ''ID''" for f
    using distinct_names_unique [OF names included_subset [OF that(1)] included_subset [OF incl]]
      that(2) nm by simp
  have start: "CreateRecord e db tr input = CreateRecord_input e db tr1 input r (TPtr (TStruct st))"
    using hook ptr by (simp add: CreateRecord_def)
  show ?thesis
  proof (cases "isZero (r (Index idf))")
    case True
    let ?fs = "filter (\<lambda>f. Name f \<noteq> ''ID'') ?incl"
    let ?q = "insert_query ''insert'' e vdesc ?fs"
    let ?vs = "field_values r ?fs"
    have keep: "filter (\<lambda>f. \<not> (True \<and> Name f = ''ID'' \<and> isZero (r (Index f)))) ?incl = ?fs"
      using True uniq by (intro filter_cong) auto
    have ex: "\<exists>f \<in> set ?incl. True \<and> Name f = ''ID'' \<and> isZero (r (Index f))"
      using True incl nm by auto
    have loop: "CreateRecord_columns e r True (WithoutTagValue ''sql'' ''-'' (Fields vdesc)) [] [] [] False
        = (map (getSQLColumnName e) ?fs, map (\<lambda>i. makeParameter e (Suc i)) [0 ..< length ?fs],
           field_values r ?fs, True)"
      using keep ex
      by (simp add: CreateRecord_columns_start included_fields_def [symmetric] del: upt_Suc)
    note body = trans [OF start CreateRecord_input_struct [OF desc ids nm loop, of db tr1 input]]
    have failed: "statements (snd (snd (CreateRecord e db tr input))) = statements tr1 @ [EvExec ?q ?vs]"
      if "ExecContext db tr1 ?q ?vs \<noteq> None"
      using that by (auto simp: body)
    have ok1: "statements (snd (snd (CreateRecord e db tr input)))
        = statements tr1 @ [EvExec ?q ?vs, EvQueryRow ''select last_insert_rowid()'' []]"
      if "ExecContext db tr1 ?q ?vs = None"
    proof -
      obtain err r' tr' where f: "CreateRecord_fetch db (tr1 @ [EvExec ?q ?vs]) st vdesc r = (err, r', tr')"
        by (cases "CreateRecord_fetch db (tr1 @ [EvExec ?q ?vs]) st vdesc r") auto
      have "statements tr' = statements tr1 @ [EvExec ?q ?vs, EvQueryRow ''select last_insert_rowid()'' []]"
        using CreateRecord_fetch_statements [OF idf, of db "tr1 @ [EvExec ?q ?vs]" st r] f
        by simp
      then show ?thesis
        using that f by (cases err) (simp_all add: body after_hook_statements)
    qed
    have ok2: "fst (snd (CreateRecord e db tr input))
        = fst (snd (run_hook ''AfterCreate'' (AfterCreate input) (r(Index idf := y)) []))"
      if "ExecContext db tr1 ?q ?vs = None"
        "QueryRowContext db (tr1 @ [EvExec ?q ?vs]) ''select last_insert_rowid()'' [] = Inr x"
        "convertAssign st (Index idf) x = Inr y" for x y
      using that(1) CreateRecord_fetch_assigns [OF idf that(2) that(3), of r]
      by (simp add: body after_hook_record)
    from True failed ok1 ok2 show ?thesis
      by (simp add: Let_def)
  next
    case False
    let ?q = "insert_query ''insert'' e vdesc ?incl"
    let ?vs = "field_values r ?incl"
    have keep: "filter (\<lambda>f. \<not> (True \<and> Name f = ''ID'' \<and> isZero (r (Index f)))) ?incl = ?incl"
      using False uniq by (auto simp: filter_id_conv)
    have ex: "\<not> (\<exists>f \<in> set ?incl. True \<and> Name f = ''ID'' \<and> isZero (r (Index f)))"
      using False uniq by auto
    have loop: "CreateRecord_columns e r True (WithoutTagValue ''sql'' ''-'' (Fields vdesc)) [] [] [] False
        = (map (getSQLColumnName e) ?incl, map (\<lambda>i. makeParameter e (Suc i)) [0 ..< length ?incl],
           field_values r ?incl, False)"
      using keep ex
      by (simp add: CreateRecord_columns_start included_fields_def [symmetric] del: upt_Suc)
    note body = trans [OF start CreateRecord_input_struct [OF desc ids nm loop, of db tr1 input]]
    have "statements (snd (snd (CreateRecord e db tr input))) = statements tr1 @ [EvExec ?q ?vs]"
      by (cases "ExecContext db tr1 ?q ?vs")
         (simp_all add: body after_hook_statements)
    with False incl show ?thesis
      by (simp add: Let_def)
  qed
qed

theorem CreateRecord_default_identity_witness:
  "statements (snd (snd (CreateRecord sample_env (sample_db [] [] (VInt64 7)) []
       (pointer_to SimpleObject_type (SimpleObject_value 0 ''test1'')))))
     = [EvExec ''insert into simple_objects (name) values ($1)'' [VString ''test1''],
        EvQueryRow ''select last_insert_rowid()'' []]
   \<and> fst (snd (CreateRecord sample_env (sample_db [] [] (VInt64 7)) []
       (pointer_to SimpleObject_type (SimpleObject_value 0 ''test1'')))) [0] = VInt 7
   \<and> statements (snd (snd (CreateRecord sample_env (sample_db [] [] (VInt64 7)) []
       (pointer_to SimpleObject_type (SimpleObject_value 1 ''test1'')))))
     = [EvExec ''insert into simple_objects (id, name) values ($1, $2)''
          [VInt 1, VString ''test1'']]"
proof -
  let ?db = "sample_db [] [] (VInt64 7)"
  let ?idf = "plain_field ''ID'' 0"
  have desc: "getDescriptionFromType SimpleObject_type = Inr SimpleObject_desc"
    by (simp add: getDescriptionFromType_def SimpleObject_type_def)
  have noid: "filter has_id_parameter (included_fields SimpleObject_desc) = []"
    by (simp add: sample_defs model_defs)
  have idf: "FieldNamed SimpleObject_desc ''ID'' = Some ?idf"
    by (simp add: sample_defs model_defs)
  have incl: "?idf \<in> set (included_fields SimpleObject_desc)"
    by (simp add: sample_defs model_defs)
  have names: "distinct (map Name (Fields SimpleObject_desc))"
    by (simp add: sample_defs)
  have ptr: "InputType (pointer_to SimpleObject_type r) = TPtr (TStruct SimpleObject_type)" for r
    by (simp add: pointer_to_def)
  have hook: "run_hook ''BeforeCreate'' (BeforeCreate (pointer_to SimpleObject_type r))
      (InputValue (pointer_to SimpleObject_type r)) [] = (None, r, [])" for r
    by (simp add: run_hook_def pointer_to_def)
  from CreateRecord_default_identity [OF ptr desc hook noid idf incl names,
      of "SimpleObject_value 0 ''test1''" sample_env ?db]
    CreateRecord_default_identity [OF ptr desc hook noid idf incl names,
      of "SimpleObject_value 1 ''test1''" sample_env ?db]
  show ?thesis
    by (simp add: sample_defs model_defs insert_query_def Let_def field_values_def)
qed

section \<open>Composite identities\<close>

text \<open>
  Claim C3, evaluated on \<^verbatim>\<open>CompositeIDObject{ID1: 101, ID2: 201}\<close>. Both loops number the
  placeholders from 1 and put the identity values first, in declaration order.
  \<^verbatim>\<open>SaveRecord\<close> joins the two conditions with \<^verbatim>\<open>" and "\<close>; \<^verbatim>\<open>DeleteRecord\<close> joins them
  with \<^verbatim>\<open>"and "\<close>, so the first placeholder runs into the keyword: \<^verbatim>\<open>$1and\<close>.
\<close>

theorem DeleteRecord_composite_where:
  "SaveRecord_where sample_env (CompositeIDObject_value 101 201 ''test1'')
       (getSQLIDFields CompositeIDObject_desc) '''' []
     = (''where id_1 = $1 and id_2 = $2'', [VInt 101, VInt 201])
   \<and> DeleteRecord_where sample_env (CompositeIDObject_value 101 201 ''test1'')
       (getSQLIDFields CompositeIDObject_desc) '''' []
     = (''where id_1 = $1and id_2 = $2'', [VInt 101, VInt 201])
   \<and> snd (snd (DeleteRecord sample_env (sample_db [] [] VNil) []
         (pointer_to CompositeIDObject_type (CompositeIDObject_value 101 201 ''test1''))))
     = [EvExec ''delete from composite_id_objects where id_1 = $1and id_2 = $2''
          [VInt 101, VInt 201]]"
  by (simp add: sample_defs model_defs DeleteRecord_def)

section \<open>Hooks run before validation\<close>

lemma not_struct_pointer_cases:
  assumes "\<And>st. t \<noteq> TPtr (TStruct st)"
  obtains k where "t = TBasic k" | u where "t = TSlice u" | st where "t = TStruct st"
    | k where "t = TPtr (TBasic k)" | u where "t = TPtr (TPtr u)" | u where "t = TPtr (TSlice u)"
proof (cases t)
  case (TPtr u)
  with assms show ?thesis by (cases u) (auto intro: that)
qed (auto intro: that)

lemma input_kind_errors:
  assumes "\<And>st. t \<noteq> TPtr (TStruct st)"
  shows "\<exists>m k. CreateRecord_input e db tr input r t = (Some (KindError m k), r, tr)"
    and "\<exists>m k. SaveRecord_input e db tr input r t = (Some (KindError m k), r, tr)"
    and "\<exists>m k. ReplaceRecord_input e db tr input r t = (Some (KindError m k), r, tr)"
    and "\<exists>m k. DeleteRecord_input e db tr input r t = (Some (KindError m k), r, tr)"
  by (rule not_struct_pointer_cases [OF assms]; simp)+

text \<open>
  Claim C9. For each of the four mutating operations, when the input has the matching
  before-hook: a failing hook's error is what the operation returns, whatever the dynamic
  type of the input; and a succeeding hook has run, with its change to the value and its
  entry in the trace, when the operation then rejects an input that is not a pointer to a
  struct, or whose type has no identity field.
\<close>

theorem before_hook_precedes_validation:
  assumes present: "before_hook op input = Some h"
  shows
    "(h (InputValue input) = (Some err, r') \<longrightarrow>
        run_operation op e db tr input =
          (Some (Wrap (operation_name op @ '': '' @ before_hook_name op
                         @ '' callback returned an error'') err),
           r', tr @ [EvHook (before_hook_name op)]))
   \<and> (h (InputValue input) = (None, r') \<and> (\<forall>st. InputType input \<noteq> TPtr (TStruct st)) \<longrightarrow>
        (\<exists>m k. run_operation op e db tr input =
                 (Some (KindError m k), r', tr @ [EvHook (before_hook_name op)])))
   \<and> (h (InputValue input) = (None, r') \<and> InputType input = TPtr (TStruct st)
        \<and> getDescriptionFromType st = Inr vdesc \<and> getSQLIDFields vdesc = [] \<longrightarrow>
        run_operation op e db tr input =
          (Some (Msg (operation_name op @ '': couldn't determine ID field(s)'')),
           r', tr @ [EvHook (before_hook_name op)]))"
proof (intro conjI impI)
  assume "h (InputValue input) = (Some err, r')"
  with present show "run_operation op e db tr input =
          (Some (Wrap (operation_name op @ '': '' @ before_hook_name op
                         @ '' callback returned an error'') err),
           r', tr @ [EvHook (before_hook_name op)])"
    by (cases op)
       (simp_all add: CreateRecord_def SaveRecord_def ReplaceRecord_def DeleteRecord_def run_hook_def)
next
  assume a: "h (InputValue input) = (None, r') \<and> (\<forall>st. InputType input \<noteq> TPtr (TStruct st))"
  then have "\<And>st. InputType input \<noteq> TPtr (TStruct st)" by simp
  note kinds = input_kind_errors [OF this, of e db "tr @ [EvHook (before_hook_name op)]" input r']
  from a present kinds show "\<exists>m k. run_operation op e db tr input =
                 (Some (KindError m k), r', tr @ [EvHook (before_hook_name op)])"
    by (cases op)
       (simp_all add: CreateRecord_def SaveRecord_def ReplaceRecord_def DeleteRecord_def run_hook_def)
next
  assume "h (InputValue input) = (None, r') \<and> InputType input = TPtr (TStruct st)
        \<and> getDescriptionFromType st = Inr vdesc \<and> getSQLIDFields vdesc = []"
  with present show "run_operation op e db tr input =
          (Some (Msg (operation_name op @ '': couldn't determine ID field(s)'')),
           r', tr @ [EvHook (before_hook_name op)])"
    by (cases op)
       (simp_all add: CreateRecord_def SaveRecord_def ReplaceRecord_def DeleteRecord_def run_hook_def)
qed

theorem before_hook_precedes_validation_witness:
  "run_operation OpSave sample_env (sample_db [] [] VNil) []
       (with_before_hooks failing_hook (plain_input (TBasic KInt) (SimpleObject_value 1 ''a'')))
     = (Some (Wrap ''SaveRecord: BeforeSave callback returned an error'' (Msg ''test error'')),
        snd (failing_hook (SimpleObject_value 1 ''a'')), [EvHook ''BeforeSave''])
   \<and> (\<exists>m k. run_operation OpDelete sample_env (sample_db [] [] VNil) []
          (with_before_hooks touching_hook (plain_input (TBasic KInt) (SimpleObject_value 1 ''a'')))
        = (Some (KindError m k), snd (touching_hook (SimpleObject_value 1 ''a'')),
           [EvHook ''BeforeDelete'']))
   \<and> run_operation OpCreate sample_env (sample_db [] [] VNil) []
       (with_before_hooks touching_hook (pointer_to NoIDObject_type (SimpleObject_value 1 ''a'')))
     = (Some (Msg ''CreateRecord: couldn't determine ID field(s)''),
        snd (touching_hook (SimpleObject_value 1 ''a'')), [EvHook ''BeforeCreate''])"
proof -
  let ?db = "sample_db [] [] VNil"
  let ?r = "SimpleObject_value 1 ''a''"
  let ?A = "with_before_hooks failing_hook (plain_input (TBasic KInt) ?r)"
  let ?B = "with_before_hooks touching_hook (plain_input (TBasic KInt) ?r)"
  let ?C = "with_before_hooks touching_hook (pointer_to NoIDObject_type ?r)"
  have pA: "before_hook OpSave ?A = Some failing_hook"
    and pB: "before_hook OpDelete ?B = Some touching_hook"
    and pC: "before_hook OpCreate ?C = Some touching_hook"
    by (simp_all add: with_before_hooks_def)
  have hA: "failing_hook (InputValue ?A) = (Some (Msg ''test error''), snd (failing_hook ?r))"
    and hB: "touching_hook (InputValue ?B) = (None, snd (touching_hook ?r))"
    and hC: "touching_hook (InputValue ?C) = (None, snd (touching_hook ?r))"
    by (simp_all add: with_before_hooks_def plain_input_def pointer_to_def failing_hook_def
          touching_hook_def)
  have tB: "\<forall>st. InputType ?B \<noteq> TPtr (TStruct st)"
    by (simp add: with_before_hooks_def plain_input_def)
  have tC: "InputType ?C = TPtr (TStruct NoIDObject_type)"
    by (simp add: with_before_hooks_def pointer_to_def)
  have dC: "getDescriptionFromType NoIDObject_type = Inr NoIDObject_desc"
    by (simp add: getDescriptionFromType_def NoIDObject_type_def)
  have iC: "getSQLIDFields NoIDObject_desc = []"
    by (simp add: sample_defs model_defs)
  from before_hook_precedes_validation [OF pA, of "Msg ''test error''" "snd (failing_hook ?r)"
      sample_env ?db "[]"] hA
  have A: "run_operation OpSave sample_env ?db [] ?A
     = (Some (Wrap ''SaveRecord: BeforeSave callback returned an error'' (Msg ''test error'')),
        snd (failing_hook ?r), [EvHook ''BeforeSave''])"
    by simp
  from before_hook_precedes_validation [OF pB, of _ "snd (touching_hook ?r)" sample_env ?db "[]"]
    hB tB
  have B: "\<exists>m k. run_operation OpDelete sample_env ?db [] ?B
        = (Some (KindError m k), snd (touching_hook ?r), [EvHook ''BeforeDelete''])"
    by simp
  from before_hook_precedes_validation [OF pC, of _ "snd (touching_hook ?r)" sample_env ?db "[]"
      NoIDObject_type NoIDObject_desc] hC tC dC iC
  have C: "run_operation OpCreate sample_env ?db [] ?C
     = (Some (Msg ''CreateRecord: couldn't determine ID field(s)''),
        snd (touching_hook ?r), [EvHook ''BeforeCreate''])"
    by simp
  from A B C show ?thesis by simp
qed

section \<open>The row decoder: columns and rows\<close>

lemma ScanRows_outer_eq:
  "ScanRows_outer e vdesc names =
     (map (\<lambda>n. target_name (ScanRows_column e vdesc n)) names,
      map (\<lambda>n. target_index (ScanRows_column e vdesc n)) names,
      filter (\<lambda>n. ScanRows_column e vdesc n = None) names)"
  by (induction names) (auto simp: target_name_def target_index_def split: option.splits)

lemma ScanRows_next_decoded:
  "ScanRows_next st goNames indexes rws arr = Inr res \<Longrightarrow>
   map Inr res = map Inr arr @ map (ScanRows_row st goNames indexes) rws"
proof (induction rws arbitrary: arr)
  case Nil
  then show ?case by simp
next
  case (Cons row rest)
  then show ?case
    by (cases "ScanRows_row st goNames indexes row") auto
qed

lemma ScanRows_next_stops:
  "list_all (\<lambda>rw. \<not> isl (ScanRows_row st goNames indexes rw)) pre \<Longrightarrow>
   ScanRows_row st goNames indexes row = Inl err \<Longrightarrow>
   ScanRows_next st goNames indexes (pre @ row # post) arr = Inl err"
proof (induction pre arbitrary: arr)
  case Nil
  then show ?case by simp
next
  case (Cons p pre)
  then show ?case
    by (cases "ScanRows_row st goNames indexes p") auto
qed

lemma find_filter:
  "find P xs = (case filter P xs of [] \<Rightarrow> None | x # ys \<Rightarrow> Some x)"
  by (induction xs) auto

lemma ScanRows_column_gated:
  "ScanRows_column e vdesc name = gated_resolve e vdesc name"
proof -
  let ?l = "WithTagValue ''sql'' name (Fields vdesc)"
  have tag: "spec_by_tag vdesc name = (case ?l of [] \<Rightarrow> None | x # ys \<Rightarrow> Some x)"
    by (simp add: spec_by_tag_def WithTagValue_def find_filter)
  consider (none) "?l = []" | (one) f where "?l = [f]" | (more) "length ?l > 1"
    by (cases ?l rule: list.exhaust; cases "tl ?l") auto
  then show ?thesis
  proof cases
    case none
    with tag show ?thesis
      by (simp add: ScanRows_column_def gated_resolve_def spec_resolve_def first_of_def
            spec_by_name_def spec_by_snake_def FieldNamed_def Let_def)
  next
    case one
    with tag show ?thesis
      by (simp add: ScanRows_column_def gated_resolve_def spec_resolve_def first_of_def Let_def)
  next
    case more
    then show ?thesis
      by (simp add: ScanRows_column_def gated_resolve_def first_of_def
            spec_by_name_def spec_by_snake_def FieldNamed_def Let_def)
  qed
qed

lemma spec_unmatched_is_missing:
  "spec_resolve e vdesc n = None \<Longrightarrow> ScanRows_column e vdesc n = None"
  by (simp add: ScanRows_column_gated gated_resolve_def spec_resolve_def first_of_def
        split: option.splits)

text \<open>
  Claim C7. When the lookups of \<^verbatim>\<open>ScanRows\<close> find no field for one or more result columns,
  the call fails with the error that names the record type and lists every such column, in
  column order, not only the first; the caller's output is left as it was.
  In particular the list holds every column that none of the three lookups of the
  specification matches.
\<close>

theorem ScanRows_reports_all_missing:
  assumes desc: "getDescriptionFromType st = Inr vdesc"
    and cols: "Columns rows = Inr names"
    and miss: "filter (\<lambda>n. ScanRows_column e vdesc n = None) names \<noteq> []"
  shows "ScanRows e rows (TPtr (TSlice (TStruct st))) out =
           (Some (MissingFields (TypeName st)
                    (filter (\<lambda>n. ScanRows_column e vdesc n = None) names)), out)
         \<and> (\<forall>n \<in> set names. spec_resolve e vdesc n = None \<longrightarrow>
               n \<in> set (filter (\<lambda>n. ScanRows_column e vdesc n = None) names))"
  using desc cols miss by (simp add: ScanRows_outer_eq spec_unmatched_is_missing)

theorem ScanRows_reports_all_missing_witness:
  "ScanRows sample_env
     \<lparr>Columns = Inr [''id'', ''bogus'', ''name'', ''other''], data = [], Close = None\<rparr>
     (TPtr (TSlice (TStruct SimpleObject_type))) []
   = (Some (MissingFields ''SimpleObject'' [''bogus'', ''other'']), [])
   \<and> spec_resolve sample_env SimpleObject_desc ''bogus'' = None
   \<and> spec_resolve sample_env SimpleObject_desc ''other'' = None"
proof -
  let ?rows = "\<lparr>Columns = Inr [''id'', ''bogus'', ''name'', ''other''], data = [], Close = None\<rparr>"
  have desc: "getDescriptionFromType SimpleObject_type = Inr SimpleObject_desc"
    by (simp add: getDescriptionFromType_def SimpleObject_type_def)
  have cols: "Columns ?rows = Inr [''id'', ''bogus'', ''name'', ''other'']"
    by simp
  have missing: "filter (\<lambda>n. ScanRows_column sample_env SimpleObject_desc n = None)
      [''id'', ''bogus'', ''name'', ''other''] = [''bogus'', ''other'']"
    by (simp add: sample_defs model_defs)
  then have miss: "filter (\<lambda>n. ScanRows_column sample_env SimpleObject_desc n = None)
      [''id'', ''bogus'', ''name'', ''other''] \<noteq> []"
    by simp
  have nm: "TypeName SimpleObject_type = ''SimpleObject''"
    by (simp add: SimpleObject_type_def)
  have spec: "spec_resolve sample_env SimpleObject_desc ''bogus'' = None"
    "spec_resolve sample_env SimpleObject_desc ''other'' = None"
    by (simp_all add: sample_defs model_defs spec_resolve_def spec_by_tag_def spec_by_name_def
          spec_by_snake_def first_of_def)
  from ScanRows_reports_all_missing [OF desc cols miss, of "[]"] missing nm spec
  show ?thesis by simp
qed

text \<open>
  Claim C10. When \<^verbatim>\<open>ScanRows\<close> succeeds, the caller's slice holds exactly the decoded
  records: one per result row, each the decoding of its row into a fresh record, in row
  order. What the slice held before the call has no part in the result.
\<close>

theorem ScanRows_replaces_output:
  assumes desc: "getDescriptionFromType st = Inr vdesc"
    and cols: "Columns rows = Inr names"
    and ok: "fst (ScanRows e rows (TPtr (TSlice (TStruct st))) out) = None"
  shows "map Inr (snd (ScanRows e rows (TPtr (TSlice (TStruct st))) out)) =
           map (ScanRows_row st
                  (map (\<lambda>n. target_name (ScanRows_column e vdesc n)) names)
                  (map (\<lambda>n. target_index (ScanRows_column e vdesc n)) names))
               (data rows)
         \<and> length (snd (ScanRows e rows (TPtr (TSlice (TStruct st))) out)) = length (data rows)"
proof -
  let ?g = "map (\<lambda>n. target_name (ScanRows_column e vdesc n)) names"
  let ?ix = "map (\<lambda>n. target_index (ScanRows_column e vdesc n)) names"
  from ok desc cols obtain arr where
    nxt: "ScanRows_next st ?g ?ix (data rows) [] = Inr arr"
    and res: "ScanRows e rows (TPtr (TSlice (TStruct st))) out = (None, arr)"
    by (auto simp: ScanRows_outer_eq split: if_splits sum.splits)
  have m: "map Inr arr = map (ScanRows_row st ?g ?ix) (data rows)"
    using ScanRows_next_decoded [OF nxt] by simp
  then have "length (map Inr arr :: (error + rec) list) = length (map (ScanRows_row st ?g ?ix) (data rows))"
    by simp
  then have "length arr = length (data rows)" by simp
  with m res show ?thesis by simp
qed

theorem ScanRows_replaces_output_witness:
  "fst (ScanRows sample_env
      \<lparr>Columns = Inr [''id'', ''name''],
       data = [[VInt64 1, VString ''a''], [VInt64 2, VString ''b'']], Close = None\<rparr>
      (TPtr (TSlice (TStruct SimpleObject_type))) [SimpleObject_value 9 ''old'']) = None
   \<and> map (\<lambda>v. (v [0], v [1]))
       (snd (ScanRows sample_env
         \<lparr>Columns = Inr [''id'', ''name''],
          data = [[VInt64 1, VString ''a''], [VInt64 2, VString ''b'']], Close = None\<rparr>
         (TPtr (TSlice (TStruct SimpleObject_type))) [SimpleObject_value 9 ''old'']))
     = [(VInt 1, VString ''a''), (VInt 2, VString ''b'')]"
proof -
  let ?rows = "\<lparr>Columns = Inr [''id'', ''name''],
       data = [[VInt64 1, VString ''a''], [VInt64 2, VString ''b'']], Close = None\<rparr>"
  let ?call = "ScanRows sample_env ?rows (TPtr (TSlice (TStruct SimpleObject_type)))
                 [SimpleObject_value 9 ''old'']"
  have desc: "getDescriptionFromType SimpleObject_type = Inr SimpleObject_desc"
    by (simp add: getDescriptionFromType_def SimpleObject_type_def)
  have cols: "Columns ?rows = Inr [''id'', ''name'']"
    by simp
  have ok: "fst ?call = None"
    by (simp add: sample_defs model_defs)
  have "map (map_sum id (\<lambda>v. (v [0], v [1]))) (map Inr (snd ?call))
      = map (map_sum id (\<lambda>v. (v [0], v [1])))
          (map (ScanRows_row SimpleObject_type
                  (map (\<lambda>n. target_name (ScanRows_column sample_env SimpleObject_desc n))
                     [''id'', ''name''])
                  (map (\<lambda>n. target_index (ScanRows_column sample_env SimpleObject_desc n))
                     [''id'', ''name'']))
               (data ?rows))"
    using ScanRows_replaces_output [OF desc cols ok] by simp
  also have "\<dots> = [Inr (VInt 1, VString ''a''), Inr (VInt 2, VString ''b'')]"
    by (simp add: sample_defs model_defs target_name_def target_index_def)
  finally have "map (\<lambda>v. (v [0], v [1])) (snd ?call) = [(VInt 1, VString ''a''), (VInt 2, VString ''b'')]"
    by (simp add: map_eq_Cons_conv)
  with ok show ?thesis by simp
qed

text \<open>
  Claim C6, as amended. When every column is resolved, the rows before some row decode and
  \<^verbatim>\<open>rows.Scan\<close> fails on that row, \<^verbatim>\<open>ScanRows\<close> stops there and returns the error wrapped
  as \<^verbatim>\<open>ScanRows: ...\<close>; the caller's output is exactly what it was before the call. The rows
  decoded so far were appended to a local slice, which is assigned to the output only after
  the last row.
\<close>

theorem ScanRows_failure_keeps_output:
  assumes desc: "getDescriptionFromType st = Inr vdesc"
    and cols: "Columns rows = Inr names"
    and nomiss: "filter (\<lambda>n. ScanRows_column e vdesc n = None) names = []"
    and rws: "data rows = pre @ row # post"
    and good: "list_all (\<lambda>rw. \<not> isl (ScanRows_row st
                  (map (\<lambda>n. target_name (ScanRows_column e vdesc n)) names)
                  (map (\<lambda>n. target_index (ScanRows_column e vdesc n)) names) rw)) pre"
    and bad: "ScanRows_row st
                  (map (\<lambda>n. target_name (ScanRows_column e vdesc n)) names)
                  (map (\<lambda>n. target_index (ScanRows_column e vdesc n)) names) row
                = Inl (Wrap ''ScanRows'' err)"
  shows "ScanRows e rows (TPtr (TSlice (TStruct st))) out = (Some (Wrap ''ScanRows'' err), out)"
  using desc cols nomiss rws ScanRows_next_stops [OF good bad, of post "[]"]
  by (simp add: ScanRows_outer_eq)

theorem ScanRows_failure_keeps_output_witness:
  "ScanRows sample_env
     \<lparr>Columns = Inr [''id'', ''name''],
      data = [[VInt64 1, VString ''a''], [VString ''bad'', VString ''b''], [VInt64 3, VString ''c'']],
      Close = None\<rparr>
     (TPtr (TSlice (TStruct SimpleObject_type))) [SimpleObject_value 9 ''old'']
   = (Some (Wrap ''ScanRows'' (Msg ''sql: Scan error: unsupported conversion'')),
      [SimpleObject_value 9 ''old''])"
proof -
  let ?rows = "\<lparr>Columns = Inr [''id'', ''name''],
      data = [[VInt64 1, VString ''a''], [VString ''bad'', VString ''b''], [VInt64 3, VString ''c'']],
      Close = None\<rparr>"
  let ?g = "map (\<lambda>n. target_name (ScanRows_column sample_env SimpleObject_desc n)) [''id'', ''name'']"
  let ?ix = "map (\<lambda>n. target_index (ScanRows_column sample_env SimpleObject_desc n)) [''id'', ''name'']"
  have desc: "getDescriptionFromType SimpleObject_type = Inr SimpleObject_desc"
    by (simp add: getDescriptionFromType_def SimpleObject_type_def)
  have cols: "Columns ?rows = Inr [''id'', ''name'']"
    by simp
  have nomiss: "filter (\<lambda>n. ScanRows_column sample_env SimpleObject_desc n = None)
      [''id'', ''name''] = []"
    by (simp add: sample_defs model_defs)
  have rws: "data ?rows = [[VInt64 1, VString ''a'']] @ [VString ''bad'', VString ''b'']
      # [[VInt64 3, VString ''c'']]"
    by simp
  have good: "list_all (\<lambda>rw. \<not> isl (ScanRows_row SimpleObject_type ?g ?ix rw))
      [[VInt64 1, VString ''a'']]"
    by (simp add: sample_defs model_defs target_name_def target_index_def)
  have bad: "ScanRows_row SimpleObject_type ?g ?ix [VString ''bad'', VString ''b'']
      = Inl (Wrap ''ScanRows'' (Msg ''sql: Scan error: unsupported conversion''))"
    by (simp add: sample_defs model_defs target_name_def target_index_def)
  from ScanRows_failure_keeps_output [OF desc cols nomiss rws good bad]
  show ?thesis .
qed

text \<open>
  Claim C6 as stated fails: the first row decodes, the second does not, and the caller's
  (empty) output does not hold the first record after the call.
\<close>

theorem ScanRows_failure_discards_rows:
  "\<not> isl (ScanRows_row SimpleObject_type [''ID'', ''Name''] [[0], [1]] [VInt64 1, VString ''a''])
   \<and> ScanRows sample_env
       \<lparr>Columns = Inr [''id'', ''name''],
        data = [[VInt64 1, VString ''a''], [VString ''bad'', VString ''b'']], Close = None\<rparr>
       (TPtr (TSlice (TStruct SimpleObject_type))) []
     = (Some (Wrap ''ScanRows'' (Msg ''sql: Scan error: unsupported conversion'')), [])"
  by (simp add: sample_defs model_defs)

subsection \<open>The order of the lookups\<close>

text \<open>
  Claim C4, as amended. For every result column name \<^verbatim>\<open>ScanRows\<close> takes the first match
  of three lookups tried in order: the field that carries the name as the value of its sql
  tag, the field with that Go name, the first field whose snake-case name it is. The first
  lookup is gated: a tag value that more than one field carries is passed over, and the
  resolution continues with the Go name. The loop returns, per column, the Go name and the
  index path of the field found, and the list of the columns for which none was found.
\<close>

theorem ScanRows_resolution_order:
  "ScanRows_outer e vdesc names =
     (map (\<lambda>n. target_name (gated_resolve e vdesc n)) names,
      map (\<lambda>n. target_index (gated_resolve e vdesc n)) names,
      filter (\<lambda>n. gated_resolve e vdesc n = None) names)"
  by (simp add: ScanRows_outer_eq ScanRows_column_gated)

text \<open>
  Claim C4 as stated fails on a type with two fields tagged \<^verbatim>\<open>sql:"x"\<close>: the first field
  matches the column \<open>x\<close> by its explicit tag, yet \<^verbatim>\<open>ScanRows\<close> finds no field for it and
  reports the column as missing.
\<close>

theorem ScanRows_shared_tag_unresolved:
  "spec_resolve sample_env TwinObject_desc ''x'' = Some (sql_field ''A'' 0 ''x'' [])
   \<and> ScanRows_outer sample_env TwinObject_desc [''x''] = ([''''], [[]], [''x''])"
  by (simp add: sample_defs model_defs spec_resolve_def spec_by_tag_def first_of_def)

section \<open>Excluded fields\<close>

lemma SaveRecord_where_cong:
  "\<forall>f \<in> set fs. r (Index f) = r' (Index f) \<Longrightarrow>
   SaveRecord_where e r fs w vals = SaveRecord_where e r' fs w vals"
  by (induction fs arbitrary: w vals) (simp_all add: Let_def)

lemma CreateRecord_columns_cong:
  "\<forall>f \<in> set fs. r (Index f) = r' (Index f) \<Longrightarrow>
   CreateRecord_columns e r b fs a1 a2 vals fetch = CreateRecord_columns e r' b fs a1 a2 vals fetch"
  by (cases b; induction fs arbitrary: a1 a2 vals fetch) (simp_all add: Let_def)

lemma ReplaceRecord_columns_cong:
  "\<forall>f \<in> set fs. r (Index f) = r' (Index f) \<Longrightarrow>
   ReplaceRecord_columns e r fs a1 a2 vals = ReplaceRecord_columns e r' fs a1 a2 vals"
  by (induction fs arbitrary: a1 a2 vals) (simp_all add: Let_def)

lemma SaveRecord_set_cong:
  "\<forall>f \<in> set fs. r (Index f) = r' (Index f) \<Longrightarrow>
   \<forall>f \<in> set fs. previous (Index f) = previous' (Index f) \<Longrightarrow>
   SaveRecord_set e previous r fs s vals m = SaveRecord_set e previous' r' fs s vals m"
  by (induction fs arbitrary: s vals m) (simp_all add: Let_def)

lemma ReplaceRecord_columns_eq:
  "ReplaceRecord_columns e r fs a1 a2 vals =
     (a1 @ map (getSQLColumnName e) fs,
      a2 @ map (\<lambda>i. makeParameter e (length a1 + Suc i)) [0 ..< length fs],
      vals @ map (\<lambda>f. r (Index f)) fs)"
  by (induction fs arbitrary: a1 a2 vals) (simp_all add: Let_def map_upt_Suc del: upt_Suc)

lemma getSQLIDFields_included:
  "f \<in> set (getSQLIDFields vdesc) \<Longrightarrow> f \<in> set (included_fields vdesc)"
  by (auto simp: getSQLIDFields_def included_fields_def WithoutTagValue_def FieldNamed_def
        Let_def find_Some_iff split: if_splits option.splits)

lemma after_hook_trace:
  "snd (snd (case run_hook n h r tr of
       (Some err, r', tr') \<Rightarrow> (Some (Wrap m err), r', tr')
     | (None, r', tr') \<Rightarrow> (None, r', tr')))
   = tr @ (case h of None \<Rightarrow> [] | Some g \<Rightarrow> [EvHook n])"
  by (simp add: run_hook_def split: option.splits prod.splits)

lemma CreateRecord_fetch_frame:
  "fst (CreateRecord_fetch db tr st vdesc r) = fst (CreateRecord_fetch db tr st vdesc r')"
  "snd (snd (CreateRecord_fetch db tr st vdesc r)) = snd (snd (CreateRecord_fetch db tr st vdesc r'))"
  by (simp_all add: CreateRecord_fetch_def Let_def split: option.splits sum.splits)

lemma after_fetch_trace:
  "snd (snd (case X of
       (Some err, r, tr) \<Rightarrow> (Some err, r, tr)
     | (None, r, tr) \<Rightarrow>
         (case run_hook n h r tr of
            (Some err, r', tr') \<Rightarrow> (Some (Wrap m err), r', tr')
          | (None, r', tr') \<Rightarrow> (None, r', tr'))))
   = (if fst X = None then snd (snd X) @ (case h of None \<Rightarrow> [] | Some g \<Rightarrow> [EvHook n])
      else snd (snd X))"
  by (cases X) (auto simp: run_hook_def split: option.splits prod.splits)

lemma CreateRecord_input_frame:
  assumes desc: "getDescriptionFromType st = Inr vdesc"
    and agree: "\<forall>f \<in> set (included_fields vdesc). r (Index f) = r' (Index f)"
  shows "snd (snd (CreateRecord_input e db tr input r (TPtr (TStruct st))))
       = snd (snd (CreateRecord_input e db tr input r' (TPtr (TStruct st))))"
proof -
  let ?b = "length (getSQLIDFields vdesc) = 1 \<and> Name (getSQLIDFields vdesc ! 0) = ''ID''"
  have loop: "CreateRecord_columns e r ?b (WithoutTagValue ''sql'' ''-'' (Fields vdesc)) [] [] [] False
      = CreateRecord_columns e r' ?b (WithoutTagValue ''sql'' ''-'' (Fields vdesc)) [] [] [] False"
    using agree unfolding included_fields_def by (rule CreateRecord_columns_cong)
  obtain a1 a2 vals fetch where
    l: "CreateRecord_columns e r' ?b (WithoutTagValue ''sql'' ''-'' (Fields vdesc)) [] [] [] False
        = (a1, a2, vals, fetch)"
    by (metis prod_cases4)
  show ?thesis
  proof (cases "getSQLIDFields vdesc = []")
    case True
    then show ?thesis using desc by simp
  next
    case False
    let ?q = "''insert into '' @ getSQLTableName e vdesc @ '' ('' @ Join a1 '', ''
                @ '') values ('' @ Join a2 '', '' @ '')''"
    show ?thesis
    proof (cases "ExecContext db tr ?q vals")
      case None
      then show ?thesis
        using desc False loop l
          CreateRecord_fetch_frame [of db "tr @ [EvExec ?q vals]" st vdesc r r']
        by (auto simp add: Let_def after_fetch_trace simp del: upt_Suc)
    next
      case (Some err)
      then show ?thesis
        using desc False loop l by (simp add: Let_def)
    qed
  qed
qed

lemma ReplaceRecord_input_frame:
  assumes desc: "getDescriptionFromType st = Inr vdesc"
    and agree: "\<forall>f \<in> set (included_fields vdesc). r (Index f) = r' (Index f)"
  shows "snd (snd (ReplaceRecord_input e db tr input r (TPtr (TStruct st))))
       = snd (snd (ReplaceRecord_input e db tr input r' (TPtr (TStruct st))))"
proof -
  have loop: "ReplaceRecord_columns e r (WithoutTagValue ''sql'' ''-'' (Fields vdesc)) [] [] []
      = ReplaceRecord_columns e r' (WithoutTagValue ''sql'' ''-'' (Fields vdesc)) [] [] []"
    using agree unfolding included_fields_def by (rule ReplaceRecord_columns_cong)
  obtain a1 a2 vals where
    l: "ReplaceRecord_columns e r' (WithoutTagValue ''sql'' ''-'' (Fields vdesc)) [] [] []
        = (a1, a2, vals)"
    by (metis prod_cases3)
  let ?q = "''insert or replace into '' @ getSQLTableName e vdesc @ '' ('' @ Join a1 '', ''
              @ '') values ('' @ Join a2 '', '' @ '')''"
  show ?thesis
    using desc loop l
    by (cases "getSQLIDFields vdesc = []"; cases "ExecContext db tr ?q vals")
       (simp_all add: Let_def after_hook_trace)
qed

lemma SaveRecord_input_frame:
  assumes desc: "getDescriptionFromType st = Inr vdesc"
    and agree: "\<forall>f \<in> set (included_fields vdesc). r (Index f) = r' (Index f)"
  shows "snd (snd (SaveRecord_input e db tr input r (TPtr (TStruct st))))
       = snd (snd (SaveRecord_input e db tr input r' (TPtr (TStruct st))))"
proof -
  have ids: "\<forall>f \<in> set (getSQLIDFields vdesc). r (Index f) = r' (Index f)"
    using agree getSQLIDFields_included by blast
  have wh: "SaveRecord_where e r (getSQLIDFields vdesc) '''' []
      = SaveRecord_where e r' (getSQLIDFields vdesc) '''' []"
    using ids by (rule SaveRecord_where_cong)
  obtain w vals where w: "SaveRecord_where e r' (getSQLIDFields vdesc) '''' [] = (w, vals)"
    by (cases "SaveRecord_where e r' (getSQLIDFields vdesc) '''' []") auto
  obtain ferr previous tr1 where
    f: "FindFirstWhere e db tr (TPtr (TStruct st)) (zero st) w vals = (ferr, previous, tr1)"
    by (metis prod_cases3)
  have loop: "SaveRecord_set e previous r (WithoutTagValue ''sql'' ''-'' (Fields vdesc)) '''' vals False
      = SaveRecord_set e previous r' (WithoutTagValue ''sql'' ''-'' (Fields vdesc)) '''' vals False"
    using agree unfolding included_fields_def by (intro SaveRecord_set_cong) simp_all
  obtain s vals2 m where
    l: "SaveRecord_set e previous r' (WithoutTagValue ''sql'' ''-'' (Fields vdesc)) '''' vals False
        = (s, vals2, m)"
    by (metis prod_cases3)
  let ?q = "''update '' @ getSQLTableName e vdesc @ '' '' @ s @ '' '' @ w"
  show ?thesis
    using desc wh w f loop l
    by (cases "getSQLIDFields vdesc = []"; cases ferr; cases m; cases "ExecContext db tr1 ?q vals2")
       (simp_all add: Let_def after_hook_trace)
qed

text \<open>
  Claim C5, as amended. The operations that write take no account of excluded fields. Two
  records that agree on every field that is not excluded make \<^verbatim>\<open>CreateRecord\<close>,
  \<^verbatim>\<open>ReplaceRecord\<close> and \<^verbatim>\<open>SaveRecord\<close> (after the before-hook) issue the same statements
  with the same arguments; the comparison loop of \<^verbatim>\<open>SaveRecord\<close> gives the same SET list
  for two snapshots that agree on these fields; \<^verbatim>\<open>ReplaceRecord\<close> lists exactly the columns
  and values of the fields that are not excluded, and every column \<^verbatim>\<open>CreateRecord\<close> lists
  belongs to such a field. The row decoder is not part of this: it looks a column up among
  all fields.
\<close>

theorem excluded_fields_ignored_by_writers:
  assumes desc: "getDescriptionFromType st = Inr vdesc"
    and agree: "\<forall>f \<in> set (included_fields vdesc). r (Index f) = r' (Index f)"
    and snap: "\<forall>f \<in> set (included_fields vdesc). previous (Index f) = previous' (Index f)"
  shows "snd (snd (CreateRecord_input e db tr input r (TPtr (TStruct st))))
           = snd (snd (CreateRecord_input e db tr input r' (TPtr (TStruct st))))
       \<and> snd (snd (ReplaceRecord_input e db tr input r (TPtr (TStruct st))))
           = snd (snd (ReplaceRecord_input e db tr input r' (TPtr (TStruct st))))
       \<and> snd (snd (SaveRecord_input e db tr input r (TPtr (TStruct st))))
           = snd (snd (SaveRecord_input e db tr input r' (TPtr (TStruct st))))
       \<and> SaveRecord_set e previous r (included_fields vdesc) s vals m
           = SaveRecord_set e previous' r' (included_fields vdesc) s vals m
       \<and> ReplaceRecord_columns e r (included_fields vdesc) [] [] []
           = (map (getSQLColumnName e) (included_fields vdesc),
              map (\<lambda>i. makeParameter e (Suc i)) [0 ..< length (included_fields vdesc)],
              field_values r (included_fields vdesc))
       \<and> set (fst (CreateRecord_columns e r b (included_fields vdesc) [] [] [] False))
           \<subseteq> getSQLColumnName e ` set (included_fields vdesc)"
proof -
  have "set (fst (CreateRecord_columns e r b (included_fields vdesc) [] [] [] False))
      \<subseteq> getSQLColumnName e ` set (included_fields vdesc)"
    by (auto simp: CreateRecord_columns_eq)
  moreover have "SaveRecord_set e previous r (included_fields vdesc) s vals m
      = SaveRecord_set e previous' r' (included_fields vdesc) s vals m"
    using agree snap by (rule SaveRecord_set_cong)
  moreover have "ReplaceRecord_columns e r (included_fields vdesc) [] [] []
           = (map (getSQLColumnName e) (included_fields vdesc),
              map (\<lambda>i. makeParameter e (Suc i)) [0 ..< length (included_fields vdesc)],
              field_values r (included_fields vdesc))"
    by (simp add: ReplaceRecord_columns_eq field_values_def)
  ultimately show ?thesis
    using CreateRecord_input_frame [OF desc agree] ReplaceRecord_input_frame [OF desc agree]
      SaveRecord_input_frame [OF desc agree]
    by simp
qed

theorem excluded_fields_ignored_by_writers_witness:
  "SimpleObject_value 1 ''a'' [1] \<noteq> SimpleObject_value 1 ''b'' [1]
   \<and> snd (snd (CreateRecord_input sample_env (sample_db [''id''] [[VInt64 1]] VNil) []
         (pointer_to SecretObject_type (SimpleObject_value 1 ''a'')) (SimpleObject_value 1 ''a'')
         (TPtr (TStruct SecretObject_type))))
     = snd (snd (CreateRecord_input sample_env (sample_db [''id''] [[VInt64 1]] VNil) []
         (pointer_to SecretObject_type (SimpleObject_value 1 ''a'')) (SimpleObject_value 1 ''b'')
         (TPtr (TStruct SecretObject_type))))
   \<and> snd (snd (ReplaceRecord_input sample_env (sample_db [''id''] [[VInt64 1]] VNil) []
         (pointer_to SecretObject_type (SimpleObject_value 1 ''a'')) (SimpleObject_value 1 ''a'')
         (TPtr (TStruct SecretObject_type))))
     = snd (snd (ReplaceRecord_input sample_env (sample_db [''id''] [[VInt64 1]] VNil) []
         (pointer_to SecretObject_type (SimpleObject_value 1 ''a'')) (SimpleObject_value 1 ''b'')
         (TPtr (TStruct SecretObject_type))))
   \<and> snd (snd (SaveRecord_input sample_env (sample_db [''id''] [[VInt64 1]] VNil) []
         (pointer_to SecretObject_type (SimpleObject_value 1 ''a'')) (SimpleObject_value 1 ''a'')
         (TPtr (TStruct SecretObject_type))))
     = snd (snd (SaveRecord_input sample_env (sample_db [''id''] [[VInt64 1]] VNil) []
         (pointer_to SecretObject_type (SimpleObject_value 1 ''a'')) (SimpleObject_value 1 ''b'')
         (TPtr (TStruct SecretObject_type))))
   \<and> SaveRecord_set sample_env (SimpleObject_value 1 ''x'') (SimpleObject_value 1 ''a'')
         (included_fields SecretObject_desc) '''' [] False
     = SaveRecord_set sample_env (SimpleObject_value 1 ''y'') (SimpleObject_value 1 ''b'')
         (included_fields SecretObject_desc) '''' [] False
   \<and> ReplaceRecord_columns sample_env (SimpleObject_value 1 ''a'')
         (included_fields SecretObject_desc) [] [] []
     = ([''id''], [''$1''], [VInt 1])"
proof -
  have desc: "getDescriptionFromType SecretObject_type = Inr SecretObject_desc"
    by (simp add: getDescriptionFromType_def SecretObject_type_def)
  have agree: "\<forall>f \<in> set (included_fields SecretObject_desc).
      SimpleObject_value 1 ''a'' (Index f) = SimpleObject_value 1 ''b'' (Index f)"
    by (simp add: sample_defs model_defs)
  have snap: "\<forall>f \<in> set (included_fields SecretObject_desc).
      SimpleObject_value 1 ''x'' (Index f) = SimpleObject_value 1 ''y'' (Index f)"
    by (simp add: sample_defs model_defs)
  have differ: "SimpleObject_value 1 ''a'' [1] \<noteq> SimpleObject_value 1 ''b'' [1]"
    by (simp add: SimpleObject_value_def)
  have ev: "map (getSQLColumnName sample_env) (included_fields SecretObject_desc) = [''id'']"
    "map (\<lambda>i. makeParameter sample_env (Suc i)) [0 ..< length (included_fields SecretObject_desc)]
       = [''$1'']"
    "field_values (SimpleObject_value 1 ''a'') (included_fields SecretObject_desc) = [VInt 1]"
    by (simp_all add: sample_defs model_defs field_values_def)
  from excluded_fields_ignored_by_writers [OF desc agree snap,
      of sample_env "sample_db [''id''] [[VInt64 1]] VNil" "[]"
         "pointer_to SecretObject_type (SimpleObject_value 1 ''a'')" "''''" "[]" False]
    differ ev
  show ?thesis by simp
qed

text \<open>
  Claim C5 as stated fails for the row decoder: a result column named \<open>secret\<close> is bound
  to the field \<^verbatim>\<open>Secret string `sql:"-"`\<close> through its snake-case name, and the row's value
  is written into it.
\<close>

theorem ScanRows_binds_excluded_field:
  "sql_field ''Secret'' 1 ''-'' [] \<in> set (Fields SecretObject_desc)
   \<and> sql_field ''Secret'' 1 ''-'' [] \<notin> set (included_fields SecretObject_desc)
   \<and> ScanRows_column sample_env SecretObject_desc ''secret'' = Some (sql_field ''Secret'' 1 ''-'' [])
   \<and> fst (ScanRows sample_env
        \<lparr>Columns = Inr [''id'', ''secret''], data = [[VInt64 1, VString ''hunter2'']], Close = None\<rparr>
        (TPtr (TSlice (TStruct SecretObject_type))) []) = None
   \<and> map (\<lambda>v. v (Index (sql_field ''Secret'' 1 ''-'' [])))
       (snd (ScanRows sample_env
          \<lparr>Columns = Inr [''id'', ''secret''], data = [[VInt64 1, VString ''hunter2'']], Close = None\<rparr>
          (TPtr (TSlice (TStruct SecretObject_type))) []))
     = [VString ''hunter2'']"
  by (simp add: sample_defs model_defs)

end
